theory Spec2Isabelle
  imports Main "HOL-Library.AList" "HOL-Library.List_Lexorder" "HOL-Library.Char_ord"
begin

section \<open>Go library functions used by converter.go\<close>

text \<open>
  Strings are byte lists, as Go's are. The functions of package \<open>strings\<close> that the
  converter calls are written out; \<open>fmt.Sprintf\<close> with \<open>%s\<close> is concatenation.
\<close>

definition strings_HasPrefix :: "string \<Rightarrow> string \<Rightarrow> bool" where
  "strings_HasPrefix s p = (take (length p) s = p)"

definition strings_HasSuffix :: "string \<Rightarrow> string \<Rightarrow> bool" where
  "strings_HasSuffix s p = (length p \<le> length s \<and> drop (length s - length p) s = p)"

fun strings_Contains :: "string \<Rightarrow> string \<Rightarrow> bool" where
  "strings_Contains [] sub = (sub = [])"
| "strings_Contains (c # s) sub = (strings_HasPrefix (c # s) sub \<or> strings_Contains s sub)"

definition strings_TrimPrefix :: "string \<Rightarrow> string \<Rightarrow> string" where
  "strings_TrimPrefix s p = (if strings_HasPrefix s p then drop (length p) s else s)"

fun strings_Join :: "string list \<Rightarrow> string \<Rightarrow> string" where
  "strings_Join [] sep = []"
| "strings_Join [x] sep = x"
| "strings_Join (x # y # ys) sep = x @ sep @ strings_Join (y # ys) sep"

text \<open>\<open>strings.SplitN(s, "=", 2)\<close>: one part when \<open>s\<close> has no \<open>=\<close>, otherwise the text
  before the first \<open>=\<close> and the text after it.\<close>

definition strings_SplitN_eq_2 :: "string \<Rightarrow> string list" where
  "strings_SplitN_eq_2 s =
     (if CHR ''='' \<in> set s
      then [takeWhile (\<lambda>c. c \<noteq> CHR ''='') s, tl (dropWhile (\<lambda>c. c \<noteq> CHR ''='') s)]
      else [s])"

text \<open>\<open>strings.Split(s, " ")\<close>: the fields between single spaces (never an empty list).\<close>

fun strings_Split_space :: "string \<Rightarrow> string list" where
  "strings_Split_space [] = [[]]"
| "strings_Split_space (c # s) =
     (if c = CHR '' '' then [] # strings_Split_space s
      else (case strings_Split_space s of
              [] \<Rightarrow> [[c]]
            | w # ws \<Rightarrow> (c # w) # ws))"

text \<open>\<open>hex.EncodeToString\<close>: two lower-case hexadecimal digits per byte.\<close>

definition hexdigit :: "nat \<Rightarrow> char" where
  "hexdigit n = ''0123456789abcdef'' ! (n mod 16)"

definition hex_EncodeToString :: "string \<Rightarrow> string" where
  "hex_EncodeToString bs =
     concat (map (\<lambda>b. [hexdigit (of_char b div 16), hexdigit (of_char b mod 16)]) bs)"

definition strIf :: "bool \<Rightarrow> string \<Rightarrow> string" where
  "strIf condition str = (if condition then str else [])"

definition joinWrap :: "string list \<Rightarrow> string \<Rightarrow> string \<Rightarrow> string \<Rightarrow> string" where
  "joinWrap a before sep after =
     (if length a > 0 then before @ strings_Join a sep @ after else [])"

text \<open>Go errors: \<open>errors.New\<close>/\<open>fmt.Errorf\<close> carry a message, \<open>errors.Wrap\<close> adds one
  around an inner error. \<open>UnresolvedArg\<close> is the error that the specification gives to the
  variable collection, whose code is in package \<open>variables\<close>; \<open>Panic\<close> is a run-time
  panic (a write to a \<open>nil\<close> map).\<close>

datatype error = ErrorNew string | Wrap error string | UnresolvedArg string | Panic string


section \<open>Data model\<close>

subsection \<open>domain.Target and domain.Artifact\<close>

text \<open>
  The struct is declared in package \<open>domain\<close>; converter.go reads and writes the fields
  \<open>Tag\<close>, \<open>LocalPath\<close> and \<open>Target\<close> (here \<open>TargetName\<close>, since the per-target state has a
  field \<open>Target\<close> too), and the specification names the project path.
\<close>

record target =
  ProjectPath :: string
  Tag :: string
  LocalPath :: string
  TargetName :: string

record artifact =
  ArtifactTarget :: target
  Artifact :: string

subsection \<open>Build-graph states (package llb)\<close>

text \<open>
  An \<open>llb.State\<close> is an immutable value describing a node of the build graph; every
  operation returns a new state built on its operands. The states are modelled as the
  terms of these operations, one constructor per operation that converter.go calls.
  \<open>NoState\<close> is the zero value \<open>llb.State{}\<close>; \<open>llb_Scratch\<close>, \<open>llb_Image\<close>,
  \<open>llb_Local\<close> and \<open>llb_Git\<close> are the sources \<open>llb.Scratch()\<close>, \<open>llb.Image\<close>,
  \<open>llb.Local\<close> and \<open>llbgit.Git\<close>; \<open>Platform s\<close> is \<open>s.Platform(llbutil.TargetPlatform)\<close>; \<open>Run_Root s opts\<close> is
  \<open>s.Run(opts...).Root()\<close>; \<open>Run_AddMount s opts t src p\<close> is
  \<open>s.Run(opts...).AddMount(t, src, llb.SourcePath(p))\<close>; \<open>CopyOp\<close> and
  \<open>WithDependency\<close> are the two graph primitives of package \<open>llbutil\<close>; the last
  argument of \<open>File\<close>, \<open>CopyOp\<close> and \<open>WithDependency\<close> is the custom vertex name.
\<close>

datatype mkdir_option = WithParents bool | WithUser string

datatype file_action =
    Mkdir string nat "mkdir_option list"
  | Rm string bool

datatype secret_option = SecretID string | SecretFileOpt nat nat nat

datatype mount_option = SourcePath string | HostBind | Readonly

datatype resolve_mode = ResolveModeDefault | ResolveModeForcePull | ResolveModePreferLocal

datatype image_option = ImageCustomName string | ImagePlatform | ImageResolve resolve_mode

datatype local_option =
    SharedKeyHint string | SessionID string | LocalPlatform | LocalCustomName string

datatype git_option = GitCustomName string | KeepGitDir

datatype llb_state =
    NoState
  | llb_Scratch
  | Platform llb_state
  | llb_Image string "image_option list"
  | llb_Local string "local_option list"
  | llb_Git string string "git_option list"
  | StateDir llb_state string
  | StateUser llb_state string
  | StateAddEnv llb_state string string
  | File llb_state file_action string
  | CopyOp llb_state "string list" llb_state string bool bool string string
  | Run_Root llb_state "run_option list"
  | Run_AddMount llb_state "run_option list" string llb_state string
  | WithDependency llb_state llb_state string
and run_option =
    Security_Insecure
  | WithCustomName string
  | AddSecret string "secret_option list"
  | AddMount string llb_state "mount_option list"
  | AddSSHSocket
  | Args "string list"
  | IgnoreCache
  | RunDir string

subsection \<open>Image metadata (package image)\<close>

text \<open>The three Go maps may be \<open>nil\<close> (\<open>None\<close>): \<open>applyFromImage\<close> tests for it.\<close>

record HealthConfig =
  Test :: "string list"
  Interval :: int
  Timeout :: int
  StartPeriod :: int
  Retries :: int

record image_config =
  Entrypoint :: "string list"
  Cmd :: "string list"
  Env :: "string list"
  WorkingDir :: string
  User :: string
  Labels :: "(string \<rightharpoonup> string) option"
  ExposedPorts :: "string set option"
  Volumes :: "string set option"
  Healthcheck :: "HealthConfig option"

record image =
  Config :: image_config

text \<open>Modelled from the spec: \<open>image.NewImage\<close> is declared in package \<open>image\<close>;
  "\<open>NewImage()\<close> initializes empty maps".\<close>

definition NewImage :: image where
  "NewImage = \<lparr>Config = \<lparr>Entrypoint = [], Cmd = [], Env = [], WorkingDir = [], User = [],
     Labels = Some Map.empty, ExposedPorts = Some {}, Volumes = Some {},
     Healthcheck = None\<rparr>\<rparr>"

text \<open>Modelled from the spec: \<open>Image.Clone\<close> is declared in package \<open>image\<close>;
  "\<open>Clone()\<close> is a deep copy". Values are never shared in HOL, so the copy is the value.\<close>

definition Clone :: "image \<Rightarrow> image" where
  "Clone img = img"

subsection \<open>Dedup input (package dedup)\<close>

text \<open>Modelled from the spec: \<open>dedup.TargetInput\<close> and \<open>WithBuildArgInput\<close> are declared
  in package \<open>dedup\<close>; the input is the "canonical target string, then all overriding args
  as (name, value-or-source)", a non-constant source "carrying sourceTargetInput +
  argIndex"; \<open>WithBuildArgInput\<close> extends it by one binding.\<close>

datatype TargetInput =
  MkTargetInput (TargetCanonical: string) (BuildArgs: "BuildArgInput list")
and BuildArgInput =
  MkBuildArgInput (Name: string) (DefaultValue: string) (Source: build_arg_source)
and build_arg_source =
    ConstantValue string
  | VariableFromInput TargetInput int

definition WithBuildArgInput :: "TargetInput \<Rightarrow> BuildArgInput \<Rightarrow> TargetInput" where
  "WithBuildArgInput ti bai = MkTargetInput (TargetCanonical ti) (BuildArgs ti @ [bai])"

subsection \<open>Variable collection (package variables)\<close>

text \<open>Modelled from the spec: package \<open>variables\<close> is not part of converter.go. A binding
  is "one of constant, constant env, non-constant: a reference to a build-state that will
  contain the value, plus a stable argument index" (and the source's dedup input).\<close>

datatype variable =
    Constant string
  | ConstantEnvVar string
  | Variable llb_state TargetInput int

definition NewConstant :: "string \<Rightarrow> variable" where
  "NewConstant v = Constant v"

definition NewConstantEnvVar :: "string \<Rightarrow> variable" where
  "NewConstantEnvVar v = ConstantEnvVar v"

fun IsEnvVar :: "variable \<Rightarrow> bool" where
  "IsEnvVar (ConstantEnvVar v) = True"
| "IsEnvVar _ = False"

fun IsConstant :: "variable \<Rightarrow> bool" where
  "IsConstant (Variable s ti i) = False"
| "IsConstant _ = True"

fun ConstantValue_of :: "variable \<Rightarrow> string" where
  "ConstantValue_of (Constant v) = v"
| "ConstantValue_of (ConstantEnvVar v) = v"
| "ConstantValue_of (Variable s ti i) = []"

fun VariableState :: "variable \<Rightarrow> llb_state" where
  "VariableState (Variable s ti i) = s"
| "VariableState _ = NoState"

fun BuildArgInput_of :: "variable \<Rightarrow> string \<Rightarrow> string \<Rightarrow> BuildArgInput" where
  "BuildArgInput_of (Variable s ti i) name defaultValue =
     MkBuildArgInput name defaultValue (VariableFromInput ti i)"
| "BuildArgInput_of v name defaultValue =
     MkBuildArgInput name defaultValue (ConstantValue (ConstantValue_of v))"

text \<open>Modelled from the spec: the collection is "an ordered mapping of name to binding"
  with "two visibility tiers: active (visible to command expansion) and overriding (set by
  caller for this target only)"; "each name has at most one active binding".\<close>

record Collection =
  activeVariables :: "(string \<times> variable) list"
  overridingVariables :: "(string \<times> variable) list"

definition NewCollection :: Collection where
  "NewCollection = \<lparr>activeVariables = [], overridingVariables = []\<rparr>"

text \<open>Modelled from the spec: \<open>get(name)\<close>; the three results are the binding, whether it
  is active, and whether it was found. An active binding is looked up first.\<close>

definition Get :: "Collection \<Rightarrow> string \<Rightarrow> variable \<times> bool \<times> bool" where
  "Get vc name =
     (case map_of (activeVariables vc) name of
        Some v \<Rightarrow> (v, True, True)
      | None \<Rightarrow>
          (case map_of (overridingVariables vc) name of
             Some v \<Rightarrow> (v, False, True)
           | None \<Rightarrow> (Constant [], False, False)))"

text \<open>Modelled from the spec: "\<open>sortedActive\<close> and \<open>sortedOverriding\<close> are
  lexicographic".\<close>

definition SortedActiveVariables :: "Collection \<Rightarrow> string list" where
  "SortedActiveVariables vc = sort (map fst (activeVariables vc))"

definition SortedOverridingVariables :: "Collection \<Rightarrow> string list" where
  "SortedOverridingVariables vc = sort (map fst (overridingVariables vc))"

text \<open>Modelled from the spec: \<open>add_active(name, binding, overrideOK)\<close>; "\<open>Arg(name,
  default)\<close> adds an active binding only if the name is not already overriding; the
  effective binding is extended into TargetInput". With \<open>override\<close> the binding given
  is the effective one; without it an overriding binding of the caller wins. The effective
  binding becomes the active one and is returned.\<close>

definition AddActive :: "Collection \<Rightarrow> string \<Rightarrow> variable \<Rightarrow> bool \<Rightarrow> variable \<times> Collection" where
  "AddActive vc name v override =
     (let effective =
            (if override then v
             else (case map_of (overridingVariables vc) name of
                     Some ov \<Rightarrow> ov
                   | None \<Rightarrow> v))
      in (effective, vc\<lparr>activeVariables := AList.update name effective (activeVariables vc)\<rparr>))"

text \<open>Modelled from the spec: "resetting env vars (on FROM) drops env bindings but
  preserves non-env active bindings".\<close>

definition WithResetEnvVars :: "Collection \<Rightarrow> Collection" where
  "WithResetEnvVars vc =
     vc\<lparr>activeVariables := filter (\<lambda>(k, v). \<not> IsEnvVar v) (activeVariables vc)\<rparr>"

text \<open>Modelled from the spec: \<open>variables.ParseKeyValue\<close> splits an image env entry
  \<open>K=V\<close> at its first \<open>=\<close>.\<close>

definition ParseKeyValue :: "string \<Rightarrow> string \<times> string" where
  "ParseKeyValue kv =
     (case strings_SplitN_eq_2 kv of
        [k, v] \<Rightarrow> (k, v)
      | _ \<Rightarrow> (kv, []))"

text \<open>Modelled from the spec: \<open>variables.AddEnv\<close> sets \<open>K=V\<close> in an image's env list,
  replacing an entry of the same key.\<close>

definition AddEnv :: "string list \<Rightarrow> string \<Rightarrow> string \<Rightarrow> string list" where
  "AddEnv envVars key val =
     (if key \<in> set (map (\<lambda>kv. fst (ParseKeyValue kv)) envVars)
      then map (\<lambda>kv. if fst (ParseKeyValue kv) = key then key @ ''='' @ val else kv) envVars
      else envVars @ [key @ ''='' @ val])"


subsection \<open>Per-target and multi-target states\<close>

text \<open>
  \<open>SingleTargetStates\<close>, \<open>MultiTargetStates\<close>, \<open>SaveLocal\<close>, \<open>SaveImage\<close>, \<open>RunPush\<close>,
  \<open>ConvertOpt\<close> and \<open>buildcontext.Data\<close> are declared outside converter.go; the records
  have the fields that converter.go reads and writes. Go holds the per-target states by
  pointer: a dependency's states are finished before the caller sees them, so the registry
  and \<open>directDeps\<close> hold their values. The collaborators a \<open>ConvertOpt\<close> hands on unchanged
  (resolver, builder functions, clean-up collection) are fixed in \<open>Collab\<close> below.
\<close>

record Data =
  BuildFilePath :: string
  BuildContext :: llb_state
  GitMetadata :: string
  LocalDirs :: "string \<rightharpoonup> string"

record SaveLocal =
  DestPath :: string
  ArtifactPath :: string
  Index :: int

record SaveImage =
  State :: llb_state
  Image :: image
  DockerTag :: string
  Push :: bool

record RunPush =
  Initialized :: bool
  State :: llb_state
  CommandStrs :: "string list"

record SingleTargetStates =
  Target :: target
  TargetInput :: TargetInput
  SideEffectsState :: llb_state
  SideEffectsImage :: image
  ArtifactsState :: llb_state
  SeparateArtifactsState :: "llb_state list"
  SaveLocals :: "SaveLocal list"
  SaveImages :: "SaveImage list"
  RunPush :: RunPush
  LocalDirs :: "string \<rightharpoonup> string"
  Ongoing :: bool
  Salt :: string

record ConvertOpt =
  ImageResolveMode :: resolve_mode
  VisitedStates :: "string \<Rightarrow> SingleTargetStates list"
  VarCollection :: Collection
  SolveCache :: "string \<rightharpoonup> llb_state"

record MultiTargetStates =
  FinalStates :: SingleTargetStates
  VisitedStates :: "string \<Rightarrow> SingleTargetStates list"

record Converter =
  gitMeta :: string
  mts :: MultiTargetStates
  directDeps :: "SingleTargetStates list"
  directDepIndices :: "int list"
  buildContext :: llb_state
  cacheContext :: llb_state
  varCollection :: Collection
  cleanCollection :: "string list"
  nextArgIndex :: int
  solveCache :: "string \<rightharpoonup> llb_state"
  imageResolveMode :: resolve_mode

datatype WithDockerOpt = WithDockerOpt "string list"

text \<open>Modelled from the spec: \<open>LastSaveImage\<close> and \<open>FinalTarget\<close> are methods declared
  with the state records; FROM +target requires "the resulting STS to have at least one
  SaveImages entry" and takes the last one.\<close>

definition LastSaveImage :: "SingleTargetStates \<Rightarrow> SaveImage option" where
  "LastSaveImage s = (if SaveImages s = [] then None else Some (last (SaveImages s)))"

definition FinalTarget :: "MultiTargetStates \<Rightarrow> target" where
  "FinalTarget m = Target (FinalStates m)"

abbreviation FS :: "Converter \<Rightarrow> SingleTargetStates" where
  "FS c \<equiv> FinalStates (mts c)"

abbreviation FS_update ::
  "(SingleTargetStates \<Rightarrow> SingleTargetStates) \<Rightarrow> Converter \<Rightarrow> Converter" where
  "FS_update f c \<equiv> c\<lparr>mts := (mts c)\<lparr>FinalStates := f (FinalStates (mts c))\<rparr>\<rparr>"

abbreviation set_SideEffectsState :: "llb_state \<Rightarrow> Converter \<Rightarrow> Converter" where
  "set_SideEffectsState x c \<equiv> FS_update (\<lambda>s. s\<lparr>SideEffectsState := x\<rparr>) c"


section \<open>Collaborators\<close>

text \<open>
  Everything converter.go calls and does not define: packages \<open>domain\<close>, \<open>llbutil\<close>,
  \<open>buildcontext\<close>, \<open>dockertar\<close>, the other files of its own package, and the Go and
  buildkit libraries. Each is a parameter, so that every theorem holds for any
  implementation of them. \<open>Target_String\<close> and \<open>Artifact_String\<close> are the \<open>String()\<close>
  methods; a parsed image reference is kept as its string; \<open>builtinBuildArgs\<close> lists the
  constants that \<open>WithBuiltinBuildArgs\<close> seeds; \<open>Dockerfile2LLB\<close> receives the collection
  whose \<open>AsMap()\<close> is its build arguments and returns the state with the image already
  converted through JSON; \<open>WithDockerRun_Run\<close> is \<open>withDockerRun.Run\<close>.
\<close>

type_synonym shellWrapFun = "string list \<Rightarrow> string list \<Rightarrow> bool \<Rightarrow> bool \<Rightarrow> string list"

record Collab =
  ParseTarget :: "string \<Rightarrow> error + target"
  ParseArtifact :: "string \<Rightarrow> error + artifact"
  JoinTargets :: "target \<Rightarrow> target \<Rightarrow> error + target"
  Target_String :: "target \<Rightarrow> string"
  StringCanonical :: "target \<Rightarrow> string"
  ProjectCanonical :: "target \<Rightarrow> string"
  IsExternal :: "target \<Rightarrow> bool"
  IsLocalInternal :: "target \<Rightarrow> bool"
  Artifact_String :: "artifact \<Rightarrow> string"
  parseMounts :: "string list \<Rightarrow> target \<Rightarrow> TargetInput \<Rightarrow> llb_state \<Rightarrow> error + run_option list"
  withShellAndEnvVars :: shellWrapFun
  withDockerdWrapOld :: shellWrapFun
  withShell :: "string list \<Rightarrow> bool \<Rightarrow> string list"
  splitWildcards :: "string \<Rightarrow> string \<times> string"
  debuggerPath :: string
  DebuggerSettingsSecretsKey :: string
  DockerfileMetaTarget :: string
  builtinBuildArgs :: "target \<Rightarrow> string \<Rightarrow> (string \<times> string) list"
  Earthfile2LLB :: "target \<Rightarrow> ConvertOpt \<Rightarrow> error + MultiTargetStates"
  WithDockerRun_Run ::
    "string list \<Rightarrow> WithDockerOpt \<Rightarrow> Converter \<Rightarrow> error option \<times> Converter"
  Abs :: "llb_state \<Rightarrow> string \<Rightarrow> error + string"
  Resolve :: "target \<Rightarrow> error + Data"
  ResolveImageConfig :: "string \<Rightarrow> resolve_mode \<Rightarrow> string \<Rightarrow> error + (string \<times> string)"
  dockerBuilderFun :: "MultiTargetStates \<Rightarrow> string \<Rightarrow> string \<Rightarrow> error option"
  artifactBuilderFun :: "MultiTargetStates \<Rightarrow> artifact \<Rightarrow> string \<Rightarrow> error option"
  dockertar_GetID :: "string \<Rightarrow> error + string"
  path_Join :: "string list \<Rightarrow> string"
  path_Base :: "string \<Rightarrow> string"
  path_IsAbs :: "string \<Rightarrow> bool"
  filepath_Join :: "string list \<Rightarrow> string"
  sha256_Sum256 :: "string \<Rightarrow> string"
  fnv_Sum32a :: "string \<Rightarrow> string"
  ioutil_ReadFile :: "string \<Rightarrow> error + string"
  ioutil_TempDir :: "string \<Rightarrow> string \<Rightarrow> error + string"
  ParseNormalizedNamed :: "string \<Rightarrow> error + string"
  TagNameOnly :: "string \<Rightarrow> string"
  WithDigest :: "string \<Rightarrow> string \<Rightarrow> error + string"
  json_Unmarshal_Image :: "string \<Rightarrow> error + image"
  Dockerfile2LLB ::
    "string \<Rightarrow> llb_state \<Rightarrow> string \<Rightarrow> resolve_mode \<Rightarrow> string \<Rightarrow> Collection
       \<Rightarrow> error + (llb_state \<times> image)"



section \<open>The variable collection, continued\<close>

text \<open>Modelled from the spec: "\<open>withBuiltinBuildArgs(target, gitMeta)\<close> seeds
  OS/arch/target-name/git-hash/... as constants; these are active but not overriding".\<close>

definition WithBuiltinBuildArgs :: "Collab \<Rightarrow> Collection \<Rightarrow> target \<Rightarrow> string \<Rightarrow> Collection" where
  "WithBuiltinBuildArgs K vc t gm =
     vc\<lparr>activeVariables :=
          fold (\<lambda>(k, v). AList.update k (NewConstant v)) (builtinBuildArgs K t gm)
            (activeVariables vc)\<rparr>"

text \<open>Modelled from the spec: "\<open>withParseBuildArgs(args[], processNonConstant)\<close> returns a
  new collection where for each \<open>K=V\<close> a constant binding is added; for each bare \<open>K\<close>, if
  already active it is carried through; otherwise \<open>processNonConstant(K, K)\<close> is invoked.
  Returns \<open>UnresolvedArg{name}\<close> on failure." The processor is a closure over the
  converter, so the converter is threaded through the calls, in the order of the
  arguments. The new collection has the receiver's overriding bindings and the parsed
  ones (a later binding of a name replaces an earlier one), and no active binding yet.\<close>

type_synonym 's ProcessNonConstantVariableFunc =
  "string \<Rightarrow> string \<Rightarrow> 's \<Rightarrow> (llb_state \<times> TargetInput \<times> int \<times> error option) \<times> 's"

fun parseBuildArgs ::
  "Collection \<Rightarrow> 's ProcessNonConstantVariableFunc \<Rightarrow> string list \<Rightarrow> (string \<times> variable) list
     \<Rightarrow> 's \<Rightarrow> (error + (string \<times> variable) list) \<times> 's" where
  "parseBuildArgs vc pncvf [] parsed st = (Inr parsed, st)"
| "parseBuildArgs vc pncvf (arg # args) parsed st =
     (if CHR ''='' \<in> set arg then
        parseBuildArgs vc pncvf args
          (parsed @ [(fst (ParseKeyValue arg), NewConstant (snd (ParseKeyValue arg)))]) st
      else
        (case map_of (activeVariables vc) arg of
           Some b \<Rightarrow> parseBuildArgs vc pncvf args (parsed @ [(arg, b)]) st
         | None \<Rightarrow>
             (case pncvf arg arg st of
                ((state, ti, argIndex, Some err), st') \<Rightarrow> (Inl (UnresolvedArg arg), st')
              | ((state, ti, argIndex, None), st') \<Rightarrow>
                  parseBuildArgs vc pncvf args (parsed @ [(arg, Variable state ti argIndex)]) st')))"

definition WithParseBuildArgs ::
  "Collection \<Rightarrow> string list \<Rightarrow> 's ProcessNonConstantVariableFunc \<Rightarrow> 's
     \<Rightarrow> (error + Collection) \<times> 's" where
  "WithParseBuildArgs vc args pncvf st =
     (case parseBuildArgs vc pncvf args [] st of
        (Inl err, st') \<Rightarrow> (Inl err, st')
      | (Inr parsed, st') \<Rightarrow>
          (Inr \<lparr>activeVariables = [],
                overridingVariables =
                  fold (\<lambda>(k, v). AList.update k v) parsed (overridingVariables vc)\<rparr>, st'))"


section \<open>converter.go\<close>

text \<open>
  A method of \<open>*Converter\<close> takes the converter and returns it updated, next to the error
  (\<open>None\<close> is \<open>nil\<close>): Go mutates the receiver in place, also on the paths that return an
  error. The context argument carries only the logger and cancellation. What a method prints
  (the deprecation warnings) is not part of the converter.
\<close>

subsection \<open>Names, cache key, dependencies\<close>

definition dq :: string where
  "dq = [CHR 0x22]"

definition vertexPrefix :: "Collab \<Rightarrow> Converter \<Rightarrow> string" where
  "vertexPrefix K c = ''['' @ Target_String K (Target (FS c)) @ '' '' @ Salt (FS c) @ ''] ''"

definition imageVertexPrefix :: "Collab \<Rightarrow> string \<Rightarrow> string" where
  "imageVertexPrefix K ident = ''['' @ ident @ '' '' @ fnv_Sum32a K ident @ ''] ''"

definition vertexPrefixWithURL :: "Collab \<Rightarrow> Converter \<Rightarrow> string \<Rightarrow> string" where
  "vertexPrefixWithURL K c url =
     ''['' @ Target_String K (Target (FS c)) @ ''('' @ url @ '') '' @ url @ ''] ''"

definition withDependency :: "Collab \<Rightarrow> llb_state \<Rightarrow> target \<Rightarrow> llb_state \<Rightarrow> target \<Rightarrow> llb_state" where
  "withDependency K state t depState depTarget =
     WithDependency state depState
       (''[internal] create artificial dependency: '' @ Target_String K t @ '' depends on ''
          @ Target_String K depTarget)"

definition cacheKey :: "Collab \<Rightarrow> target \<Rightarrow> string" where
  "cacheKey K t =
     (let targetCopy = t\<lparr>Tag := []\<rparr>;
          digest = sha256_Sum256 K (StringCanonical K targetCopy)
      in hex_EncodeToString digest)"

definition makeCacheContext :: "Collab \<Rightarrow> target \<Rightarrow> llb_state" where
  "makeCacheContext K t =
     (let sessionID = cacheKey K t;
          opts = [SharedKeyHint (ProjectCanonical K t), SessionID sessionID, LocalPlatform,
                  LocalCustomName (''[internal] cache context '' @ ProjectCanonical K t)]
      in llb_Local ''earthly-cache'' opts)"

subsection \<open>NewConverter\<close>

text \<open>The random salt is an argument. The registry of the options is shared with the new
  converter's \<open>mts\<close>: both see the registration.\<close>

definition NewConverter :: "Collab \<Rightarrow> target \<Rightarrow> Data \<Rightarrow> ConvertOpt \<Rightarrow> string \<Rightarrow> Converter" where
  "NewConverter K t bc opt salt =
     (let sts0 = \<lparr>Target = t,
                  TargetInput = MkTargetInput (StringCanonical K t) [],
                  SideEffectsState = Platform llb_Scratch,
                  SideEffectsImage = NewImage,
                  ArtifactsState = Platform llb_Scratch,
                  SeparateArtifactsState = [],
                  SaveLocals = [],
                  SaveImages = [],
                  RunPush = \<lparr>Initialized = False, State = NoState, CommandStrs = []\<rparr>,
                  LocalDirs = Data.LocalDirs bc,
                  Ongoing = True,
                  Salt = salt\<rparr>;
          sts = fold (\<lambda>key s. s\<lparr>TargetInput :=
                         WithBuildArgInput (TargetInput s)
                           (BuildArgInput_of (fst (Get (VarCollection opt) key)) key [])\<rparr>)
                  (SortedOverridingVariables (VarCollection opt)) sts0;
          targetStr = Target_String K t;
          visited = (ConvertOpt.VisitedStates opt)
                      (targetStr := ConvertOpt.VisitedStates opt targetStr @ [sts])
      in \<lparr>gitMeta = GitMetadata bc,
          mts = \<lparr>FinalStates = sts, VisitedStates = visited\<rparr>,
          directDeps = [],
          directDepIndices = [],
          buildContext = BuildContext bc,
          cacheContext = makeCacheContext K t,
          varCollection = WithBuiltinBuildArgs K (VarCollection opt) t (GitMetadata bc),
          cleanCollection = [],
          nextArgIndex = 0,
          solveCache = SolveCache opt,
          imageResolveMode = ImageResolveMode opt\<rparr>)"

subsection \<open>internalRun and Run\<close>

text \<open>File modes are written in decimal: \<open>0444\<close> is 292 and \<open>0755\<close> is 493. The loop over
  the secrets, the loop over the active variables and the rest of the options up to
  \<open>llb.Args\<close> are \<open>internalRun_secrets\<close>, \<open>internalRun_buildArgs\<close> and
  \<open>internalRun_finalOpts\<close>; \<open>internalRun\<close> is the whole function.\<close>

fun internalRun_secrets ::
  "Collab \<Rightarrow> string list \<Rightarrow> run_option list \<Rightarrow> string list
     \<Rightarrow> error + (run_option list \<times> string list)" where
  "internalRun_secrets K [] finalOpts extraEnvVars = Inr (finalOpts, extraEnvVars)"
| "internalRun_secrets K (secretKeyValue # rest) finalOpts extraEnvVars =
     (let parts = strings_SplitN_eq_2 secretKeyValue in
      if length parts \<noteq> 2 then
        Inl (ErrorNew (''Invalid secret definition '' @ secretKeyValue))
      else if \<not> strings_HasPrefix (parts ! 1) ''+secrets/'' then
        Inl (ErrorNew (''Secret definition '' @ secretKeyValue
               @ '' not supported. Must start with +secrets/''))
      else
        (let envVar = parts ! 0;
             secretID = strings_TrimPrefix (parts ! 1) ''+secrets/'';
             secretPath = path_Join K [''/run/secrets'', secretID];
             secretOpts = [SecretID secretID, SecretFileOpt 0 0 292]
         in internalRun_secrets K rest
              (finalOpts @ [AddSecret secretPath secretOpts])
              (extraEnvVars @ [envVar @ ''='' @ dq @ ''$(cat '' @ secretPath @ '')'' @ dq])))"


fun internalRun_buildArgs ::
  "Collab \<Rightarrow> Collection \<Rightarrow> string list \<Rightarrow> run_option list \<Rightarrow> string list
     \<Rightarrow> run_option list \<times> string list" where
  "internalRun_buildArgs K vc [] finalOpts extraEnvVars = (finalOpts, extraEnvVars)"
| "internalRun_buildArgs K vc (buildArgName # rest) finalOpts extraEnvVars =
     (let ba = fst (Get vc buildArgName) in
      if IsEnvVar ba then internalRun_buildArgs K vc rest finalOpts extraEnvVars
      else if IsConstant ba then
        internalRun_buildArgs K vc rest finalOpts
          (extraEnvVars @ [buildArgName @ ''='' @ dq @ ConstantValue_of ba @ dq])
      else
        (let buildArgPath = path_Join K [''/run/buildargs'', buildArgName]
         in internalRun_buildArgs K vc rest
              (finalOpts @ [AddMount buildArgPath (VariableState ba) [SourcePath buildArgPath]])
              (extraEnvVars @ [buildArgName @ ''='' @ dq @ ''$(cat '' @ buildArgPath @ '')'' @ dq])))"

definition internalRun_finalOpts ::
  "Collab \<Rightarrow> Converter \<Rightarrow> string list \<Rightarrow> string list \<Rightarrow> bool \<Rightarrow> shellWrapFun \<Rightarrow> bool
     \<Rightarrow> run_option list \<Rightarrow> error + run_option list" where
  "internalRun_finalOpts K c args secretKeyValues isWithShell shellWrap withSSH opts =
     (case internalRun_secrets K secretKeyValues opts [] of
        Inl err \<Rightarrow> Inl err
      | Inr (finalOpts1, extraEnvVars1) \<Rightarrow>
          (case internalRun_buildArgs K (varCollection c)
                  (SortedActiveVariables (varCollection c)) finalOpts1 extraEnvVars1 of
             (finalOpts2, extraEnvVars) \<Rightarrow>
               (let secretOpts = [SecretID (DebuggerSettingsSecretsKey K), SecretFileOpt 0 0 292];
                    debuggerSecretMount =
                      AddSecret (''/run/secrets/'' @ DebuggerSettingsSecretsKey K) secretOpts;
                    debuggerMount =
                      AddMount (debuggerPath K) llb_Scratch
                        [HostBind, SourcePath ''/usr/bin/earth_debugger''];
                    runEarthlyMount =
                      AddMount ''/run/earthly'' llb_Scratch [HostBind, SourcePath ''/run/earthly''];
                    finalOpts3 = finalOpts2 @ [debuggerSecretMount, debuggerMount, runEarthlyMount];
                    finalOpts4 = (if withSSH then finalOpts3 @ [AddSSHSocket] else finalOpts3);
                    finalArgs = shellWrap args extraEnvVars isWithShell True
                in Inr (finalOpts4 @ [Args finalArgs]))))"

definition internalRun ::
  "Collab \<Rightarrow> Converter \<Rightarrow> string list \<Rightarrow> string list \<Rightarrow> bool \<Rightarrow> shellWrapFun \<Rightarrow> bool \<Rightarrow> bool
     \<Rightarrow> string \<Rightarrow> run_option list \<Rightarrow> error option \<times> Converter" where
  "internalRun K c args secretKeyValues isWithShell shellWrap pushFlag withSSH commandStr opts =
     (case internalRun_finalOpts K c args secretKeyValues isWithShell shellWrap withSSH opts of
        Inl err \<Rightarrow> (Some err, c)
      | Inr finalOpts \<Rightarrow>
          (if pushFlag then
             (let finalOpts' = finalOpts @ [IgnoreCache];
                  c1 = (if \<not> Initialized (RunPush (FS c)) then
                          FS_update (\<lambda>s. s\<lparr>RunPush := (RunPush s)
                            \<lparr>State := SideEffectsState s, Initialized := True\<rparr>\<rparr>) c
                        else c);
                  c2 = FS_update (\<lambda>s. s\<lparr>RunPush := (RunPush s)
                         \<lparr>State := Run_Root (State (RunPush s)) finalOpts'\<rparr>\<rparr>) c1;
                  c3 = FS_update (\<lambda>s. s\<lparr>RunPush := (RunPush s)
                         \<lparr>CommandStrs := CommandStrs (RunPush s) @ [commandStr]\<rparr>\<rparr>) c2
              in (None, c3))
           else
             (None, set_SideEffectsState (Run_Root (SideEffectsState (FS c)) finalOpts) c)))"

text \<open>In \<open>Run\<close>, the block for an empty argument list declares a new slice \<open>args\<close> with
  \<open>:=\<close> and copies the image's CMD into it; the new variable ends with the block, and the
  \<open>append\<close> after it reads the parameter \<open>args\<close>. \<open>argsInner\<close> is that inner variable.\<close>

definition Run ::
  "Collab \<Rightarrow> Converter \<Rightarrow> string list \<Rightarrow> string list \<Rightarrow> string list \<Rightarrow> bool \<Rightarrow> bool \<Rightarrow> bool
     \<Rightarrow> bool \<Rightarrow> bool \<Rightarrow> bool \<Rightarrow> error option \<times> Converter" where
  "Run K c args mounts secretKeyValues privileged withEntrypoint withDocker isWithShell
       pushFlag withSSH =
     (case parseMounts K mounts (Target (FS c)) (TargetInput (FS c)) (cacheContext c) of
        Inl err \<Rightarrow> (Some (Wrap err ''parse mounts''), c)
      | Inr mountRunOpts \<Rightarrow>
          (let opts1 = mountRunOpts;
               argsInner = (if withEntrypoint \<and> length args = 0
                            then Cmd (Config (SideEffectsImage (FS c))) else []);
               finalArgs = (if withEntrypoint
                            then Entrypoint (Config (SideEffectsImage (FS c))) @ args
                            else args);
               isWithShell' = (if withEntrypoint then False else isWithShell);
               opts2 = (if privileged then opts1 @ [Security_Insecure] else opts1);
               runStr = ''RUN '' @ strIf privileged ''--privileged ''
                          @ strIf withDocker ''--with-docker ''
                          @ strIf withEntrypoint ''--entrypoint ''
                          @ strIf pushFlag ''--push ''
                          @ strings_Join finalArgs '' '';
               shellWrap = (if withDocker then withDockerdWrapOld K else withShellAndEnvVars K);
               opts3 = opts2 @ [WithCustomName (vertexPrefix K c @ runStr)]
           in internalRun K c finalArgs secretKeyValues isWithShell' shellWrap pushFlag withSSH
                runStr opts3))"

subsection \<open>Build arguments that are not constant\<close>

definition processNonConstantBuildArgFunc ::
  "Collab \<Rightarrow> Converter ProcessNonConstantVariableFunc" where
  "processNonConstantBuildArgFunc K name expression c =
     (let srcBuildArgDir = ''/run/buildargs-src'';
          srcBuildArgPath = path_Join K [srcBuildArgDir, name];
          c1 = set_SideEffectsState
                 (File (SideEffectsState (FS c)) (Mkdir srcBuildArgDir 493 [WithParents True])
                    (''[internal] mkdir '' @ srcBuildArgDir)) c;
          buildArgPath = path_Join K [''/run/buildargs'', name];
          args = strings_Split_space
                   (''echo '' @ dq @ expression @ dq @ '' >'' @ srcBuildArgPath)
      in (case internalRun K c1 args [] True (withShellAndEnvVars K) False False expression
                 [WithCustomName (vertexPrefix K c1 @ ''RUN '' @ expression)] of
            (Some err, c2) \<Rightarrow>
              ((NoState, MkTargetInput [] [], 0, Some (Wrap err (''run '' @ expression))), c2)
          | (None, c2) \<Rightarrow>
              (let buildArgState =
                     CopyOp (SideEffectsState (FS c2)) [srcBuildArgPath] (Platform llb_Scratch)
                       buildArgPath False False [] (''[internal] copy buildarg '' @ name);
                   argIndex = nextArgIndex c2;
                   c3 = c2\<lparr>nextArgIndex := nextArgIndex c2 + 1\<rparr>;
                   c4 = set_SideEffectsState
                          (File (SideEffectsState (FS c3)) (Rm srcBuildArgPath True)
                             (''[internal] rm '' @ srcBuildArgPath)) c3
               in ((buildArgState, TargetInput (FS c4), argIndex, None), c4))))"

subsection \<open>Build\<close>

text \<open>\<open>Build_ConvertOpt\<close> is \<open>Build\<close> up to the options it hands to \<open>Earthfile2LLB\<close>;
  \<open>Build\<close> is the whole function.\<close>

definition Build_ConvertOpt ::
  "Collab \<Rightarrow> Converter \<Rightarrow> string \<Rightarrow> string list \<Rightarrow> (error + target \<times> ConvertOpt) \<times> Converter" where
  "Build_ConvertOpt K c fullTargetName buildArgs =
     (case ParseTarget K fullTargetName of
        Inl err \<Rightarrow> (Inl (Wrap err (''earth target parse '' @ fullTargetName)), c)
      | Inr relTarget \<Rightarrow>
          (case JoinTargets K (Target (FS c)) relTarget of
             Inl err \<Rightarrow> (Inl (Wrap err ''join targets''), c)
           | Inr t \<Rightarrow>
               (let newVarCollection =
                      (if IsExternal K relTarget then NewCollection else varCollection c)
                in (case WithParseBuildArgs newVarCollection buildArgs
                           (processNonConstantBuildArgFunc K) c of
                      (Inl err, c1) \<Rightarrow> (Inl (Wrap err ''parse build args''), c1)
                    | (Inr newVarCollection', c1) \<Rightarrow>
                        (Inr (t, \<lparr>ImageResolveMode = imageResolveMode c1,
                                  ConvertOpt.VisitedStates = VisitedStates (mts c1),
                                  VarCollection = newVarCollection',
                                  SolveCache = solveCache c1\<rparr>), c1)))))"

definition Build ::
  "Collab \<Rightarrow> Converter \<Rightarrow> string \<Rightarrow> string list \<Rightarrow> (error + MultiTargetStates) \<times> Converter" where
  "Build K c fullTargetName buildArgs =
     (case Build_ConvertOpt K c fullTargetName buildArgs of
        (Inl err, c1) \<Rightarrow> (Inl err, c1)
      | (Inr (t, opt), c1) \<Rightarrow>
          (case Earthfile2LLB K t opt of
             Inl err \<Rightarrow> (Inl (Wrap err (''earthfile2llb for '' @ fullTargetName)), c1)
           | Inr mts' \<Rightarrow> (Inr mts', c1\<lparr>directDeps := directDeps c1 @ [FinalStates mts']\<rparr>)))"


subsection \<open>FROM\<close>

abbreviation FS_Config_update ::
  "(image_config \<Rightarrow> image_config) \<Rightarrow> Converter \<Rightarrow> Converter" where
  "FS_Config_update f c \<equiv>
     FS_update (\<lambda>s. s\<lparr>SideEffectsImage :=
       (SideEffectsImage s)\<lparr>Config := f (Config (SideEffectsImage s))\<rparr>\<rparr>) c"

definition applyFromImage ::
  "Converter \<Rightarrow> llb_state \<Rightarrow> image \<Rightarrow> llb_state \<times> image \<times> Collection" where
  "applyFromImage c state img =
     (case fold (\<lambda>envVar (vc, st).
                   (snd (AddActive vc (fst (ParseKeyValue envVar))
                           (NewConstantEnvVar (snd (ParseKeyValue envVar))) True),
                    StateAddEnv st (fst (ParseKeyValue envVar)) (snd (ParseKeyValue envVar))))
             (Env (Config img)) (WithResetEnvVars (varCollection c), state) of
        (newVarCollection, state1) \<Rightarrow>
          (let img1 = (if ExposedPorts (Config img) = None
                       then img\<lparr>Config := (Config img)\<lparr>ExposedPorts := Some {}\<rparr>\<rparr> else img);
               img2 = (if Labels (Config img1) = None
                       then img1\<lparr>Config := (Config img1)\<lparr>Labels := Some Map.empty\<rparr>\<rparr> else img1);
               img3 = (if Volumes (Config img2) = None
                       then img2\<lparr>Config := (Config img2)\<lparr>Volumes := Some {}\<rparr>\<rparr> else img2);
               state2 = (if WorkingDir (Config img3) \<noteq> []
                         then StateDir state1 (WorkingDir (Config img3)) else state1);
               state3 = (if User (Config img3) \<noteq> []
                         then StateUser state2 (User (Config img3)) else state2)
           in (state3, img3, newVarCollection)))"

definition internalFromClassical ::
  "Collab \<Rightarrow> Converter \<Rightarrow> string \<Rightarrow> image_option list
     \<Rightarrow> error + (llb_state \<times> image \<times> Collection)" where
  "internalFromClassical K c imageName opts =
     (if imageName = ''scratch'' then
        Inr (Platform llb_Scratch, NewImage, WithResetEnvVars (varCollection c))
      else
        (case ParseNormalizedNamed K imageName of
           Inl err \<Rightarrow> Inl (Wrap err (''parse normalized named '' @ imageName))
         | Inr ref \<Rightarrow>
             (let baseImageName = TagNameOnly K ref in
              case ResolveImageConfig K baseImageName (imageResolveMode c)
                     (imageVertexPrefix K imageName @ ''Load metadata'') of
                Inl err \<Rightarrow> Inl (Wrap err (''resolve image config for '' @ imageName))
              | Inr (dgst, dt) \<Rightarrow>
                  (case json_Unmarshal_Image K dt of
                     Inl err \<Rightarrow> Inl (Wrap err (''unmarshal image config for '' @ imageName))
                   | Inr img \<Rightarrow>
                       (case (if dgst \<noteq> [] then WithDigest K ref dgst else Inr ref) of
                          Inl err \<Rightarrow>
                            Inl (Wrap err (''reference add digest '' @ dgst @ '' for '' @ imageName))
                        | Inr ref' \<Rightarrow>
                            (let allOpts = opts @ [ImagePlatform,
                                                   ImageResolve (imageResolveMode c)];
                                 state = llb_Image ref' allOpts
                             in Inr (applyFromImage c state img)))))))"

definition fromClassical :: "Collab \<Rightarrow> Converter \<Rightarrow> string \<Rightarrow> error option \<times> Converter" where
  "fromClassical K c imageName =
     (case internalFromClassical K c imageName
             [ImageCustomName (vertexPrefix K c @ ''FROM '' @ imageName)] of
        Inl err \<Rightarrow> (Some err, c)
      | Inr (state, img, newVariables) \<Rightarrow>
          (None, (FS_update (\<lambda>s. s\<lparr>SideEffectsState := state, SideEffectsImage := img\<rparr>) c)
                   \<lparr>varCollection := newVariables\<rparr>))"

definition fromTarget ::
  "Collab \<Rightarrow> Converter \<Rightarrow> string \<Rightarrow> string list \<Rightarrow> error option \<times> Converter" where
  "fromTarget K c targetName buildArgs =
     (case ParseTarget K targetName of
        Inl err \<Rightarrow> (Some (Wrap err (''parse target name '' @ targetName)), c)
      | Inr depTarget \<Rightarrow>
          (case Build K c (Target_String K depTarget) buildArgs of
             (Inl err, c1) \<Rightarrow> (Some (Wrap err (''apply build '' @ Target_String K depTarget)), c1)
           | (Inr mts', c1) \<Rightarrow>
               (let depTarget' = (if IsLocalInternal K depTarget
                                  then depTarget\<lparr>LocalPath := LocalPath (Target (FS c1))\<rparr>
                                  else depTarget);
                    relevantDepState = FinalStates mts'
                in (case LastSaveImage relevantDepState of
                      None \<Rightarrow>
                        (Some (ErrorNew (''FROM statement: referenced target ''
                                 @ Target_String K depTarget'
                                 @ '' does not contain a SAVE IMAGE statement'')), c1)
                    | Some saveImage \<Rightarrow>
                        (let c2 = set_SideEffectsState (SaveImage.State saveImage) c1;
                             c3 = FS_update (\<lambda>s. s\<lparr>LocalDirs :=
                                    LocalDirs s ++ LocalDirs relevantDepState\<rparr>) c2;
                             c4 = c3\<lparr>varCollection :=
                                    fold (\<lambda>kv vc.
                                            snd (AddActive vc (fst (ParseKeyValue kv))
                                                   (NewConstantEnvVar (snd (ParseKeyValue kv))) True))
                                      (Env (Config (Image saveImage))) (varCollection c3)\<rparr>;
                             c5 = FS_update (\<lambda>s. s\<lparr>SideEffectsImage :=
                                    Clone (Image saveImage)\<rparr>) c4
                         in (None, c5))))))"

definition From ::
  "Collab \<Rightarrow> Converter \<Rightarrow> string \<Rightarrow> string list \<Rightarrow> error option \<times> Converter" where
  "From K c imageName buildArgs =
     (if strings_Contains imageName ''+'' then fromTarget K c imageName buildArgs
      else if length buildArgs \<noteq> 0 then
        (Some (ErrorNew ''--build-arg not supported in non-target FROM''), c)
      else fromClassical K c imageName)"

subsection \<open>Solving a dependency on the host\<close>

text \<open>The clean-up collection records the directory each registered callback removes.\<close>

definition solveAndLoadOld ::
  "Collab \<Rightarrow> Converter \<Rightarrow> MultiTargetStates \<Rightarrow> string \<Rightarrow> string \<Rightarrow> run_option list
     \<Rightarrow> error option \<times> Converter" where
  "solveAndLoadOld K c m opName dockerTag opts =
     (case ioutil_TempDir K ''/tmp'' ''earthly-docker-load'' of
        Inl err \<Rightarrow> (Some (Wrap err ''mk temp dir for docker load''), c)
      | Inr outDir \<Rightarrow>
          (let c1 = c\<lparr>cleanCollection := cleanCollection c @ [outDir]\<rparr>;
               outFile = path_Join K [outDir, ''image.tar'']
           in (case dockerBuilderFun K m dockerTag outFile of
                 Some err \<Rightarrow>
                   (Some (Wrap err (''build target '' @ opName @ '' for docker load'')), c1)
               | None \<Rightarrow>
                   (case dockertar_GetID K outFile of
                      Inl err \<Rightarrow> (Some (Wrap err ''inspect docker tar after build''), c1)
                    | Inr dockerImageID \<Rightarrow>
                        (let sessionIDKey = dockerTag @ ''-'' @ dockerImageID;
                             sessionID = hex_EncodeToString (sha256_Sum256 K sessionIDKey);
                             tarContext =
                               llb_Local opName
                                 [SharedKeyHint opName, SessionID sessionID, LocalPlatform,
                                  LocalCustomName (''[internal] docker tar context '' @ opName
                                                     @ '' '' @ sessionID)];
                             c2 = FS_update (\<lambda>s. s\<lparr>LocalDirs := (LocalDirs s)(opName \<mapsto> outDir)\<rparr>) c1;
                             c3 = set_SideEffectsState
                                    (File (SideEffectsState (FS c2))
                                       (Mkdir ''/var/lib/docker'' 493 [WithParents True])
                                       ''[internal] mkdir /var/lib/docker'') c2;
                             loadOpts =
                               [Args (withDockerdWrapOld K [''docker'', ''load'', ''</src/image.tar'']
                                        [] True False),
                                AddMount ''/src'' tarContext [Readonly],
                                RunDir ''/src'',
                                Security_Insecure] @ opts;
                             c4 = set_SideEffectsState
                                    (Run_AddMount (SideEffectsState (FS c3)) loadOpts
                                       ''/var/lib/docker'' (SideEffectsState (FS c3))
                                       ''/var/lib/docker'') c3
                         in (None, c4))))))"

definition solveArtifact ::
  "Collab \<Rightarrow> Converter \<Rightarrow> MultiTargetStates \<Rightarrow> artifact \<Rightarrow> (error + string) \<times> Converter" where
  "solveArtifact K c m art =
     (case ioutil_TempDir K ''/tmp'' ''earthly-solve-artifact'' of
        Inl err \<Rightarrow> (Inl (Wrap err ''mk temp dir for solve artifact''), c)
      | Inr outDir \<Rightarrow>
          (let c1 = c\<lparr>cleanCollection := cleanCollection c @ [outDir]\<rparr>
           in (case artifactBuilderFun K m art (outDir @ ''/'') of
                 Some err \<Rightarrow> (Inl (Wrap err (''build artifact '' @ Artifact_String K art)), c1)
               | None \<Rightarrow> (Inr outDir, c1))))"

subsection \<open>FROM DOCKERFILE\<close>

text \<open>\<open>FromDockerfile_context\<close> is the branch that finds the Dockerfile and its build
  context, from a target's artifact or from the host; \<open>FromDockerfile\<close> is the whole
  function.\<close>

definition FromDockerfile_context ::
  "Collab \<Rightarrow> Converter \<Rightarrow> string \<Rightarrow> string list
     \<Rightarrow> (error + string \<times> llb_state) \<times> Converter" where
  "FromDockerfile_context K c contextPath buildArgs =
     (if strings_Contains contextPath ''+'' then
        (case ParseArtifact K contextPath of
           Inl err \<Rightarrow> (Inl (Wrap err (''parse artifact '' @ contextPath)), c)
         | Inr contextArtifact \<Rightarrow>
             (case Build K c (Target_String K (ArtifactTarget contextArtifact)) buildArgs of
                (Inl err, c1) \<Rightarrow> (Inl err, c1)
              | (Inr mts', c1) \<Rightarrow>
                  (case solveArtifact K c1 mts' contextArtifact of
                     (Inl err, c2) \<Rightarrow> (Inl err, c2)
                   | (Inr pathArtifact, c2) \<Rightarrow>
                       (let dfPath = filepath_Join K [pathArtifact, ''Dockerfile''];
                            buildContext' =
                              CopyOp (ArtifactsState (FinalStates mts'))
                                [Artifact contextArtifact] (Platform llb_Scratch) ''/'' True True []
                                (''[internal] FROM DOCKERFILE (copy build context from) ''
                                   @ joinWrap buildArgs ''('' '' '' '') ''
                                   @ Artifact_String K contextArtifact)
                        in (Inr (dfPath, buildContext'), c2)))))
      else
        (let contextPath' =
               (if contextPath \<noteq> ''.'' \<and> \<not> strings_HasPrefix contextPath ''./''
                   \<and> \<not> strings_HasPrefix contextPath ''../''
                   \<and> \<not> strings_HasPrefix contextPath ''/''
                then ''./'' @ contextPath else contextPath);
             dockerfileMetaTarget =
               \<lparr>ProjectPath = [], Tag = [], LocalPath = contextPath',
                TargetName = DockerfileMetaTarget K\<rparr>
         in (case JoinTargets K (FinalTarget (mts c)) dockerfileMetaTarget of
               Inl err \<Rightarrow> (Inl (Wrap err ''join targets''), c)
             | Inr dockerfileMetaTarget' \<Rightarrow>
                 (case Resolve K dockerfileMetaTarget' of
                    Inl err \<Rightarrow> (Inl (Wrap err ''resolve build context for dockerfile''), c)
                  | Inr bcdata \<Rightarrow>
                      (Inr (BuildFilePath bcdata, BuildContext bcdata),
                       FS_update (\<lambda>s. s\<lparr>LocalDirs := LocalDirs s ++ Data.LocalDirs bcdata\<rparr>) c)))))"

definition FromDockerfile ::
  "Collab \<Rightarrow> Converter \<Rightarrow> string \<Rightarrow> string \<Rightarrow> string \<Rightarrow> string list
     \<Rightarrow> error option \<times> Converter" where
  "FromDockerfile K c contextPath dfPath dfTarget buildArgs =
     (if dfPath \<noteq> [] then (Some (ErrorNew ''FROM DOCKERFILE -f not yet supported''), c)
      else
        (case FromDockerfile_context K c contextPath buildArgs of
           (Inl err, c1) \<Rightarrow> (Some err, c1)
         | (Inr (dfPath', buildContext'), c1) \<Rightarrow>
             (case ioutil_ReadFile K dfPath' of
                Inl err \<Rightarrow> (Some (Wrap err (''read file '' @ dfPath')), c1)
              | Inr dfData \<Rightarrow>
                  (case WithParseBuildArgs (varCollection c1) buildArgs
                          (processNonConstantBuildArgFunc K) c1 of
                     (Inl err, c2) \<Rightarrow> (Some err, c2)
                   | (Inr newVarCollection, c2) \<Rightarrow>
                       (case Dockerfile2LLB K dfData buildContext'
                               (Target_String K (FinalTarget (mts c2))) (imageResolveMode c2)
                               dfTarget newVarCollection of
                          Inl err \<Rightarrow> (Some (Wrap err (''dockerfile2llb '' @ dfPath')), c2)
                        | Inr (state, img) \<Rightarrow>
                            (case applyFromImage c2 state img of
                               (state2, img2, newVarCollection') \<Rightarrow>
                                 (None,
                                  (FS_update (\<lambda>s. s\<lparr>SideEffectsState := state2,
                                                     SideEffectsImage := img2\<rparr>) c2)
                                    \<lparr>varCollection := newVarCollection'\<rparr>)))))))"


subsection \<open>COPY, SAVE, BUILD and the image settings\<close>

definition CopyArtifact ::
  "Collab \<Rightarrow> Converter \<Rightarrow> string \<Rightarrow> string \<Rightarrow> string list \<Rightarrow> bool \<Rightarrow> string
     \<Rightarrow> error option \<times> Converter" where
  "CopyArtifact K c artifactName dest buildArgs isDir chown =
     (case ParseArtifact K artifactName of
        Inl err \<Rightarrow> (Some (Wrap err (''parse artifact name '' @ artifactName)), c)
      | Inr art \<Rightarrow>
          (case Build K c (Target_String K (ArtifactTarget art)) buildArgs of
             (Inl err, c1) \<Rightarrow>
               (Some (Wrap err (''apply build '' @ Target_String K (ArtifactTarget art))), c1)
           | (Inr mts', c1) \<Rightarrow>
               (let art' = (if IsLocalInternal K (ArtifactTarget art)
                            then art\<lparr>ArtifactTarget :=
                                   (ArtifactTarget art)\<lparr>LocalPath := LocalPath (Target (FS c1))\<rparr>\<rparr>
                            else art);
                    relevantDepState = FinalStates mts'
                in (None,
                    set_SideEffectsState
                      (CopyOp (ArtifactsState relevantDepState) [Artifact art']
                         (SideEffectsState (FS c1)) dest True isDir chown
                         (vertexPrefix K c1 @ ''COPY '' @ strIf isDir ''--dir ''
                            @ joinWrap buildArgs ''('' '' '' '') '' @ Artifact_String K art'
                            @ '' '' @ dest)) c1))))"

definition CopyClassical ::
  "Collab \<Rightarrow> Converter \<Rightarrow> string list \<Rightarrow> string \<Rightarrow> bool \<Rightarrow> string \<Rightarrow> Converter" where
  "CopyClassical K c srcs dest isDir chown =
     set_SideEffectsState
       (CopyOp (buildContext c) srcs (SideEffectsState (FS c)) dest True isDir chown
          (vertexPrefix K c @ ''COPY '' @ strIf isDir ''--dir '' @ strings_Join srcs '' ''
             @ '' '' @ dest)) c"

definition SaveArtifact ::
  "Collab \<Rightarrow> Converter \<Rightarrow> string \<Rightarrow> string \<Rightarrow> string \<Rightarrow> error option \<times> Converter" where
  "SaveArtifact K c saveFrom saveTo saveAsLocalTo =
     (case (if saveTo = [] \<or> saveTo = ''.'' \<or> strings_HasSuffix saveTo ''/'' then
              (case Abs K (SideEffectsState (FS c)) saveFrom of
                 Inl err \<Rightarrow> Inl err
               | Inr absSaveFrom \<Rightarrow>
                   (let saveFromRelative = path_Join K [''.'', absSaveFrom]
                    in Inr (path_Join K [saveTo, path_Base K saveFromRelative])))
            else Inr saveTo) of
        Inl err \<Rightarrow> (Some err, c)
      | Inr saveToAdjusted0 \<Rightarrow>
          (case splitWildcards K saveToAdjusted0 of
             (saveToD, saveToF) \<Rightarrow>
               (let saveToAdjusted = (if saveToF = [] then saveToAdjusted0 else saveToD @ ''/'');
                    artifactPath = (if saveToF = [] then saveToAdjusted0
                                    else path_Join K [saveToAdjusted, saveToF]);
                    art = \<lparr>ArtifactTarget = Target (FS c), Artifact = artifactPath\<rparr>;
                    c1 = FS_update (\<lambda>s. s\<lparr>ArtifactsState :=
                           CopyOp (SideEffectsState s) [saveFrom] (ArtifactsState s)
                             saveToAdjusted True True []
                             (vertexPrefix K c @ ''SAVE ARTIFACT '' @ saveFrom @ '' ''
                                @ Artifact_String K art)\<rparr>) c
                in if saveAsLocalTo \<noteq> [] then
                     (let separateArtifactsState =
                            CopyOp (SideEffectsState (FS c1)) [saveFrom] (Platform llb_Scratch)
                              saveToAdjusted True False []
                              (vertexPrefix K c1 @ ''SAVE ARTIFACT '' @ saveFrom @ '' ''
                                 @ Artifact_String K art @ '' AS LOCAL '' @ saveAsLocalTo);
                          c2 = FS_update (\<lambda>s. s\<lparr>SeparateArtifactsState :=
                                 SeparateArtifactsState s @ [separateArtifactsState]\<rparr>) c1;
                          c3 = FS_update (\<lambda>s. s\<lparr>SaveLocals := SaveLocals s @
                                 [\<lparr>DestPath = saveAsLocalTo, ArtifactPath = artifactPath,
                                   Index = int (length (SeparateArtifactsState s)) - 1\<rparr>]\<rparr>) c2
                      in (None, c3))
                   else (None, c1))))"

definition SaveImage_cmd :: "Converter \<Rightarrow> string list \<Rightarrow> bool \<Rightarrow> Converter" where
  "SaveImage_cmd c imageNames pushImages =
     (let imageNames' = (if length imageNames = 0 then [[]] else imageNames)
      in fold (\<lambda>imageName c'.
                 FS_update (\<lambda>s. s\<lparr>SaveImages := SaveImages s @
                   [\<lparr>SaveImage.State = SideEffectsState s,
                     Image = Clone (SideEffectsImage s),
                     DockerTag = imageName,
                     Push = pushImages\<rparr>]\<rparr>) c')
           imageNames' c)"

definition Workdir :: "Collab \<Rightarrow> Converter \<Rightarrow> string \<Rightarrow> Converter" where
  "Workdir K c workdirPath =
     (let c1 = set_SideEffectsState (StateDir (SideEffectsState (FS c)) workdirPath) c;
          workdirAbs = (if \<not> path_IsAbs K workdirPath
                        then path_Join K [''/'', WorkingDir (Config (SideEffectsImage (FS c1))),
                                          workdirPath]
                        else workdirPath);
          c2 = FS_Config_update (\<lambda>cfg. cfg\<lparr>WorkingDir := workdirAbs\<rparr>) c1
      in if workdirAbs \<noteq> ''/'' then
           (let mkdirOpts = [WithParents True] @
                  (if User (Config (SideEffectsImage (FS c2))) \<noteq> []
                   then [WithUser (User (Config (SideEffectsImage (FS c2))))] else [])
            in set_SideEffectsState
                 (File (SideEffectsState (FS c2)) (Mkdir workdirAbs 493 mkdirOpts)
                    (vertexPrefix K c2 @ ''WORKDIR '' @ workdirPath)) c2)
         else c2)"

definition User_cmd :: "Converter \<Rightarrow> string \<Rightarrow> Converter" where
  "User_cmd c user =
     FS_Config_update (\<lambda>cfg. cfg\<lparr>User := user\<rparr>)
       (set_SideEffectsState (StateUser (SideEffectsState (FS c)) user) c)"

definition Cmd_cmd :: "Collab \<Rightarrow> Converter \<Rightarrow> string list \<Rightarrow> bool \<Rightarrow> Converter" where
  "Cmd_cmd K c cmdArgs isWithShell =
     FS_Config_update (\<lambda>cfg. cfg\<lparr>Cmd := withShell K cmdArgs isWithShell\<rparr>) c"

definition Entrypoint_cmd :: "Collab \<Rightarrow> Converter \<Rightarrow> string list \<Rightarrow> bool \<Rightarrow> Converter" where
  "Entrypoint_cmd K c entrypointArgs isWithShell =
     FS_Config_update (\<lambda>cfg. cfg\<lparr>Entrypoint := withShell K entrypointArgs isWithShell\<rparr>) c"

text \<open>A write to a \<open>nil\<close> map panics; a loop over no entries writes nothing.\<close>

definition Expose :: "Converter \<Rightarrow> string list \<Rightarrow> error option \<times> Converter" where
  "Expose c ports =
     (case ExposedPorts (Config (SideEffectsImage (FS c))) of
        None \<Rightarrow> (if ports = [] then (None, c)
                 else (Some (Panic ''assignment to entry in nil map''), c))
      | Some ps \<Rightarrow>
          (None, FS_Config_update (\<lambda>cfg. cfg\<lparr>ExposedPorts := Some (ps \<union> set ports)\<rparr>) c))"

definition Volume :: "Converter \<Rightarrow> string list \<Rightarrow> error option \<times> Converter" where
  "Volume c volumes =
     (case Volumes (Config (SideEffectsImage (FS c))) of
        None \<Rightarrow> (if volumes = [] then (None, c)
                 else (Some (Panic ''assignment to entry in nil map''), c))
      | Some vs \<Rightarrow>
          (None, FS_Config_update (\<lambda>cfg. cfg\<lparr>Volumes := Some (vs \<union> set volumes)\<rparr>) c))"

definition Env_cmd :: "Converter \<Rightarrow> string \<Rightarrow> string \<Rightarrow> Converter" where
  "Env_cmd c envKey envValue =
     (let c1 = c\<lparr>varCollection :=
                  snd (AddActive (varCollection c) envKey (NewConstantEnvVar envValue) True)\<rparr>;
          c2 = set_SideEffectsState (StateAddEnv (SideEffectsState (FS c1)) envKey envValue) c1
      in FS_Config_update (\<lambda>cfg. cfg\<lparr>Env := AddEnv (Env cfg) envKey envValue\<rparr>) c2)"

definition Arg :: "Converter \<Rightarrow> string \<Rightarrow> string \<Rightarrow> Converter" where
  "Arg c argKey defaultArgValue =
     (case AddActive (varCollection c) argKey (NewConstant defaultArgValue) False of
        (effective, vc) \<Rightarrow>
          FS_update (\<lambda>s. s\<lparr>TargetInput :=
              WithBuildArgInput (TargetInput s)
                (BuildArgInput_of effective argKey defaultArgValue)\<rparr>)
            (c\<lparr>varCollection := vc\<rparr>))"

definition Label :: "Converter \<Rightarrow> (string \<rightharpoonup> string) \<Rightarrow> error option \<times> Converter" where
  "Label c labels =
     (case Labels (Config (SideEffectsImage (FS c))) of
        None \<Rightarrow> (if labels = Map.empty then (None, c)
                 else (Some (Panic ''assignment to entry in nil map''), c))
      | Some ls \<Rightarrow>
          (None, FS_Config_update (\<lambda>cfg. cfg\<lparr>Labels := Some (ls ++ labels)\<rparr>) c))"

definition GitClone :: "Collab \<Rightarrow> Converter \<Rightarrow> string \<Rightarrow> string \<Rightarrow> string \<Rightarrow> error option \<times> Converter" where
  "GitClone K c gitURL branch dest =
     (let gitOpts = [GitCustomName (vertexPrefixWithURL K c gitURL @ ''GIT CLONE (--branch ''
                                      @ branch @ '') '' @ gitURL),
                     KeepGitDir];
          gitState = llb_Git gitURL branch gitOpts
      in (None,
          set_SideEffectsState
            (CopyOp gitState [''.''] (SideEffectsState (FS c)) dest False False []
               (vertexPrefix K c @ ''COPY GIT CLONE (--branch '' @ branch @ '') '' @ gitURL
                  @ '' TO '' @ dest)) c))"

definition WithDockerRun ::
  "Collab \<Rightarrow> Converter \<Rightarrow> string list \<Rightarrow> WithDockerOpt \<Rightarrow> error option \<times> Converter" where
  "WithDockerRun K c args opt = WithDockerRun_Run K args opt c"

definition DockerLoadOld ::
  "Collab \<Rightarrow> Converter \<Rightarrow> string \<Rightarrow> string \<Rightarrow> string list \<Rightarrow> error option \<times> Converter" where
  "DockerLoadOld K c targetName dockerTag buildArgs =
     (case ParseTarget K targetName of
        Inl err \<Rightarrow> (Some (Wrap err (''parse target '' @ targetName)), c)
      | Inr depTarget \<Rightarrow>
          (case Build K c (Target_String K depTarget) buildArgs of
             (Inl err, c1) \<Rightarrow> (Some err, c1)
           | (Inr mts', c1) \<Rightarrow>
               solveAndLoadOld K c1 mts' (Target_String K depTarget) dockerTag
                 [WithCustomName (vertexPrefix K c1 @ ''DOCKER LOAD '' @ Target_String K depTarget
                                    @ '' '' @ dockerTag)]))"

text \<open>The zero value of the per-target state, as a Go composite literal leaves the fields
  it does not name.\<close>

definition zero_SingleTargetStates :: SingleTargetStates where
  "zero_SingleTargetStates =
     \<lparr>Target = \<lparr>ProjectPath = [], Tag = [], LocalPath = [], TargetName = []\<rparr>,
      TargetInput = MkTargetInput [] [],
      SideEffectsState = NoState,
      SideEffectsImage = \<lparr>Config = \<lparr>Entrypoint = [], Cmd = [], Env = [], WorkingDir = [],
        User = [], Labels = None, ExposedPorts = None, Volumes = None, Healthcheck = None\<rparr>\<rparr>,
      ArtifactsState = NoState,
      SeparateArtifactsState = [],
      SaveLocals = [],
      SaveImages = [],
      RunPush = \<lparr>Initialized = False, State = NoState, CommandStrs = []\<rparr>,
      LocalDirs = Map.empty,
      Ongoing = False,
      Salt = []\<rparr>"

definition DockerPullOld :: "Collab \<Rightarrow> Converter \<Rightarrow> string \<Rightarrow> error option \<times> Converter" where
  "DockerPullOld K c dockerTag =
     (case internalFromClassical K c dockerTag
             [ImageCustomName (vertexPrefix K c @ ''DOCKER PULL '' @ dockerTag)] of
        Inl err \<Rightarrow> (Some err, c)
      | Inr (state, img, vc) \<Rightarrow>
          (let mts' = \<lparr>FinalStates = zero_SingleTargetStates
                         \<lparr>SideEffectsState := state,
                          SideEffectsImage := img,
                          SaveImages := [\<lparr>SaveImage.State = state, Image = img,
                                          DockerTag = dockerTag, Push = False\<rparr>]\<rparr>,
                       VisitedStates = (\<lambda>k. [])\<rparr>
           in solveAndLoadOld K c mts' dockerTag dockerTag
                [WithCustomName (vertexPrefix K c @ ''DOCKER LOAD (PULL '' @ dockerTag @ '')'')]))"

definition Healthcheck_cmd ::
  "Converter \<Rightarrow> bool \<Rightarrow> string list \<Rightarrow> int \<Rightarrow> int \<Rightarrow> int \<Rightarrow> int \<Rightarrow> Converter" where
  "Healthcheck_cmd c isNone cmdArgs interval timeout startPeriod retries =
     (let hc = (if isNone then
                  \<lparr>Test = [''NONE''], Interval = 0, Timeout = 0, StartPeriod = 0, Retries = 0\<rparr>
                else
                  \<lparr>Test = [''CMD-SHELL'', strings_Join cmdArgs '' ''], Interval = interval,
                   Timeout = timeout, StartPeriod = startPeriod, Retries = retries\<rparr>)
      in FS_Config_update (\<lambda>cfg. cfg\<lparr>Healthcheck := Some hc\<rparr>) c)"

subsection \<open>FinalizeStates\<close>

definition FinalizeStates :: "Collab \<Rightarrow> Converter \<Rightarrow> MultiTargetStates \<times> Converter" where
  "FinalizeStates K c =
     (let c1 = fold (\<lambda>depStates c'.
                       set_SideEffectsState
                         (withDependency K (SideEffectsState (FS c')) (Target (FS c'))
                            (SideEffectsState depStates) (Target depStates)) c')
                 (directDeps c) c;
          c2 = FS_update (\<lambda>s. s\<lparr>Ongoing := False\<rparr>) c1
      in (mts c2, c2))"

subsection \<open>Sequences of commands\<close>

text \<open>The public methods of the converter, as the parser driver calls them, and their
  application in order. A command that fails leaves the converter as far as it got.\<close>

record RunCall =
  args :: "string list"
  mounts :: "string list"
  secretKeyValues :: "string list"
  privileged :: bool
  withEntrypoint :: bool
  withDocker :: bool
  isWithShell :: bool
  pushFlag :: bool
  withSSH :: bool

definition Run_call :: "Collab \<Rightarrow> Converter \<Rightarrow> RunCall \<Rightarrow> error option \<times> Converter" where
  "Run_call K c r =
     Run K c (args r) (mounts r) (secretKeyValues r) (privileged r) (withEntrypoint r)
       (withDocker r) (isWithShell r) (pushFlag r) (withSSH r)"

datatype command =
    C_From string "string list"
  | C_FromDockerfile string string string "string list"
  | C_CopyArtifact string string "string list" bool string
  | C_CopyClassical "string list" string bool string
  | C_Run RunCall
  | C_SaveArtifact string string string
  | C_SaveImage "string list" bool
  | C_Build string "string list"
  | C_Workdir string
  | C_User string
  | C_Cmd "string list" bool
  | C_Entrypoint "string list" bool
  | C_Expose "string list"
  | C_Volume "string list"
  | C_Env string string
  | C_Arg string string
  | C_Label "string \<rightharpoonup> string"
  | C_GitClone string string string
  | C_WithDockerRun "string list" WithDockerOpt
  | C_DockerLoadOld string string "string list"
  | C_DockerPullOld string
  | C_Healthcheck bool "string list" int int int int
  | C_FinalizeStates

fun apply_command :: "Collab \<Rightarrow> command \<Rightarrow> Converter \<Rightarrow> error option \<times> Converter" where
  "apply_command K (C_From imageName buildArgs) c = From K c imageName buildArgs"
| "apply_command K (C_FromDockerfile contextPath dfPath dfTarget buildArgs) c =
     FromDockerfile K c contextPath dfPath dfTarget buildArgs"
| "apply_command K (C_CopyArtifact artifactName dest buildArgs isDir chown) c =
     CopyArtifact K c artifactName dest buildArgs isDir chown"
| "apply_command K (C_CopyClassical srcs dest isDir chown) c =
     (None, CopyClassical K c srcs dest isDir chown)"
| "apply_command K (C_Run r) c = Run_call K c r"
| "apply_command K (C_SaveArtifact saveFrom saveTo saveAsLocalTo) c =
     SaveArtifact K c saveFrom saveTo saveAsLocalTo"
| "apply_command K (C_SaveImage imageNames pushImages) c =
     (None, SaveImage_cmd c imageNames pushImages)"
| "apply_command K (C_Build fullTargetName buildArgs) c =
     (case Build K c fullTargetName buildArgs of
        (Inl err, c') \<Rightarrow> (Some err, c')
      | (Inr m, c') \<Rightarrow> (None, c'))"
| "apply_command K (C_Workdir workdirPath) c = (None, Workdir K c workdirPath)"
| "apply_command K (C_User user) c = (None, User_cmd c user)"
| "apply_command K (C_Cmd cmdArgs sh) c = (None, Cmd_cmd K c cmdArgs sh)"
| "apply_command K (C_Entrypoint entrypointArgs sh) c = (None, Entrypoint_cmd K c entrypointArgs sh)"
| "apply_command K (C_Expose ports) c = Expose c ports"
| "apply_command K (C_Volume volumes) c = Volume c volumes"
| "apply_command K (C_Env envKey envValue) c = (None, Env_cmd c envKey envValue)"
| "apply_command K (C_Arg argKey defaultArgValue) c = (None, Arg c argKey defaultArgValue)"
| "apply_command K (C_Label labels) c = Label c labels"
| "apply_command K (C_GitClone gitURL branch dest) c = GitClone K c gitURL branch dest"
| "apply_command K (C_WithDockerRun wargs opt) c = WithDockerRun K c wargs opt"
| "apply_command K (C_DockerLoadOld targetName dockerTag buildArgs) c =
     DockerLoadOld K c targetName dockerTag buildArgs"
| "apply_command K (C_DockerPullOld dockerTag) c = DockerPullOld K c dockerTag"
| "apply_command K (C_Healthcheck isNone cmdArgs interval timeout startPeriod retries) c =
     (None, Healthcheck_cmd c isNone cmdArgs interval timeout startPeriod retries)"
| "apply_command K C_FinalizeStates c = (None, snd (FinalizeStates K c))"

definition apply_commands :: "Collab \<Rightarrow> command list \<Rightarrow> Converter \<Rightarrow> Converter" where
  "apply_commands K cmds c = fold (\<lambda>cmd c'. snd (apply_command K cmd c')) cmds c"



section \<open>Notions used in the statements\<close>

text \<open>The argument list, the command string and the run options that one call of \<open>Run\<close>
  computes before it touches the states: the steps of \<open>Run\<close> and \<open>internalRun\<close> up to
  \<open>llb.Args\<close>, or the error that ends the call.\<close>

definition Run_finalArgs :: "Converter \<Rightarrow> RunCall \<Rightarrow> string list" where
  "Run_finalArgs c r =
     (if withEntrypoint r then Entrypoint (Config (SideEffectsImage (FS c))) @ args r
      else args r)"

definition Run_runStr :: "Converter \<Rightarrow> RunCall \<Rightarrow> string" where
  "Run_runStr c r =
     ''RUN '' @ strIf (privileged r) ''--privileged '' @ strIf (withDocker r) ''--with-docker ''
       @ strIf (withEntrypoint r) ''--entrypoint '' @ strIf (pushFlag r) ''--push ''
       @ strings_Join (Run_finalArgs c r) '' ''"

definition Run_finalOpts :: "Collab \<Rightarrow> Converter \<Rightarrow> RunCall \<Rightarrow> error + run_option list" where
  "Run_finalOpts K c r =
     (case parseMounts K (mounts r) (Target (FS c)) (TargetInput (FS c)) (cacheContext c) of
        Inl err \<Rightarrow> Inl (Wrap err ''parse mounts'')
      | Inr mountRunOpts \<Rightarrow>
          internalRun_finalOpts K c (Run_finalArgs c r) (secretKeyValues r)
            (if withEntrypoint r then False else isWithShell r)
            (if withDocker r then withDockerdWrapOld K else withShellAndEnvVars K)
            (withSSH r)
            ((if privileged r then mountRunOpts @ [Security_Insecure] else mountRunOpts)
               @ [WithCustomName (vertexPrefix K c @ Run_runStr c r)]))"

text \<open>The options of a call that succeeds (none for one that fails), the calls of a list
  that succeed on a converter, and the converter after all the calls of a list.\<close>

definition Run_opts :: "Collab \<Rightarrow> Converter \<Rightarrow> RunCall \<Rightarrow> run_option list" where
  "Run_opts K c r = (case Run_finalOpts K c r of Inl err \<Rightarrow> [] | Inr finalOpts \<Rightarrow> finalOpts)"

definition Run_applied :: "Collab \<Rightarrow> Converter \<Rightarrow> RunCall list \<Rightarrow> RunCall list" where
  "Run_applied K c rs = filter (\<lambda>r. fst (Run_call K c r) = None) rs"

definition Run_all :: "Collab \<Rightarrow> Converter \<Rightarrow> RunCall list \<Rightarrow> Converter" where
  "Run_all K c rs = fold (\<lambda>r c'. snd (Run_call K c' r)) rs c"



text \<open>The command that writes a build argument's expression to its file, and the options
  of the run that executes it for the converter: custom name, the mounts of the active
  variables, the debugger mounts, and the wrapped command.\<close>

definition buildArg_echo :: "Collab \<Rightarrow> string \<Rightarrow> string \<Rightarrow> string list" where
  "buildArg_echo K name expression =
     strings_Split_space
       (''echo '' @ dq @ expression @ dq @ '' >'' @ path_Join K [''/run/buildargs-src'', name])"

definition buildArg_runOpts :: "Collab \<Rightarrow> Converter \<Rightarrow> string \<Rightarrow> string \<Rightarrow> run_option list" where
  "buildArg_runOpts K c name expression =
     (case internalRun_buildArgs K (varCollection c) (SortedActiveVariables (varCollection c))
             [WithCustomName (vertexPrefix K c @ ''RUN '' @ expression)] [] of
        (finalOpts, extraEnvVars) \<Rightarrow>
          finalOpts @
          [AddSecret (''/run/secrets/'' @ DebuggerSettingsSecretsKey K)
             [SecretID (DebuggerSettingsSecretsKey K), SecretFileOpt 0 0 292],
           AddMount (debuggerPath K) llb_Scratch [HostBind, SourcePath ''/usr/bin/earth_debugger''],
           AddMount ''/run/earthly'' llb_Scratch [HostBind, SourcePath ''/run/earthly''],
           Args (withShellAndEnvVars K (buildArg_echo K name expression) extraEnvVars True True)])"


text \<open>A converter that differs from another at most in \<open>SideEffectsState\<close> and in the
  counter of build arguments: what the processing of build arguments may change.\<close>

definition buildArgs_frame :: "Converter \<Rightarrow> Converter \<Rightarrow> bool" where
  "buildArgs_frame c c' =
     (c' = (set_SideEffectsState (SideEffectsState (FS c')) c)\<lparr>nextArgIndex := nextArgIndex c'\<rparr>)"

text \<open>The destination and the artifact path that SAVE ARTIFACT computes from its
  arguments (or the error of \<open>llbutil.Abs\<close>), the two vectors of the exports to the host, the condition that every \<open>SaveLocal\<close>
  indexes its own position among the separate states, the commands that are SAVE ARTIFACT,
  and the assumption on \<open>withDockerRun.Run\<close>, whose code is not in converter.go, that it
  leaves the two vectors alone.\<close>

definition SaveArtifact_paths ::
  "Collab \<Rightarrow> Converter \<Rightarrow> string \<Rightarrow> string \<Rightarrow> error + string \<times> string" where
  "SaveArtifact_paths K c saveFrom saveTo =
     (case (if saveTo = [] \<or> saveTo = ''.'' \<or> strings_HasSuffix saveTo ''/'' then
              (case Abs K (SideEffectsState (FS c)) saveFrom of
                 Inl err \<Rightarrow> Inl err
               | Inr absSaveFrom \<Rightarrow>
                   Inr (path_Join K [saveTo, path_Base K (path_Join K [''.'', absSaveFrom])]))
            else Inr saveTo) of
        Inl err \<Rightarrow> Inl err
      | Inr saveToAdjusted0 \<Rightarrow>
          (case splitWildcards K saveToAdjusted0 of
             (saveToD, saveToF) \<Rightarrow>
               Inr (if saveToF = [] then saveToAdjusted0 else saveToD @ ''/'',
                    if saveToF = [] then saveToAdjusted0
                    else path_Join K [saveToD @ ''/'', saveToF])))"

definition locals_of :: "Converter \<Rightarrow> llb_state list \<times> SaveLocal list" where
  "locals_of c = (SeparateArtifactsState (FS c), SaveLocals (FS c))"

definition SaveLocals_ok :: "Converter \<Rightarrow> bool" where
  "SaveLocals_ok c =
     (map Index (SaveLocals (FS c)) = map int [0..<length (SeparateArtifactsState (FS c))])"

fun is_SaveArtifact :: "command \<Rightarrow> bool" where
  "is_SaveArtifact (C_SaveArtifact saveFrom saveTo saveAsLocalTo) = True"
| "is_SaveArtifact cmd = False"

definition WithDockerRun_keeps_locals :: "Collab \<Rightarrow> bool" where
  "WithDockerRun_keeps_locals K =
     (\<forall>as opt c. locals_of (snd (WithDockerRun_Run K as opt c)) = locals_of c)"

text \<open>The name a build argument binds (\<open>K\<close> of \<open>K=V\<close>, or the bare name), the
  collection that \<open>Build\<close> parses the build arguments on, and the build arguments that
  the non-constant processor is called for on a collection.\<close>

definition buildArgName :: "string \<Rightarrow> string" where
  "buildArgName arg = fst (ParseKeyValue arg)"

definition Build_receiver :: "Collab \<Rightarrow> Converter \<Rightarrow> string \<Rightarrow> Collection" where
  "Build_receiver K c fullTargetName =
     (case ParseTarget K fullTargetName of
        Inl err \<Rightarrow> varCollection c
      | Inr relTarget \<Rightarrow> (if IsExternal K relTarget then NewCollection else varCollection c))"

definition processed_buildArgs :: "Collection \<Rightarrow> string list \<Rightarrow> string list" where
  "processed_buildArgs vc buildArgs =
     filter (\<lambda>a. CHR ''='' \<notin> set a \<and> map_of (activeVariables vc) a = None) buildArgs"

text \<open>What \<open>Run\<close> reads of a converter and never writes.\<close>

definition Run_frame :: "Converter \<Rightarrow> Converter \<Rightarrow> bool" where
  "Run_frame c c' =
     (Target (FS c') = Target (FS c) \<and> TargetInput (FS c') = TargetInput (FS c)
      \<and> Salt (FS c') = Salt (FS c) \<and> SideEffectsImage (FS c') = SideEffectsImage (FS c)
      \<and> cacheContext c' = cacheContext c \<and> varCollection c' = varCollection c)"

section \<open>Example collaborators and converters\<close>

text \<open>A small implementation of the collaborators, on which the theorems are
  instantiated: targets are written \<open>project+name\<close>, a target without a project is of the
  current one, paths are joined with \<open>/\<close>, every dependency builds to a state with one local
  directory, and it has saved an image exactly when its name is \<open>image\<close>.\<close>

definition ex_ParseTarget :: "string \<Rightarrow> error + target" where
  "ex_ParseTarget s =
     (if CHR ''+'' \<in> set s
      then Inr \<lparr>ProjectPath = takeWhile (\<lambda>c. c \<noteq> CHR ''+'') s, Tag = [],
                LocalPath = takeWhile (\<lambda>c. c \<noteq> CHR ''+'') s,
                TargetName = tl (dropWhile (\<lambda>c. c \<noteq> CHR ''+'') s)\<rparr>
      else Inl (ErrorNew (''invalid target '' @ s)))"

definition ex_Target_String :: "target \<Rightarrow> string" where
  "ex_Target_String t = ProjectPath t @ ''+'' @ TargetName t"

definition ex_ParseArtifact :: "string \<Rightarrow> error + artifact" where
  "ex_ParseArtifact s =
     (case ex_ParseTarget (takeWhile (\<lambda>c. c \<noteq> CHR ''/'') s) of
        Inl err \<Rightarrow> Inl err
      | Inr t \<Rightarrow> Inr \<lparr>ArtifactTarget = t, Artifact = dropWhile (\<lambda>c. c \<noteq> CHR ''/'') s\<rparr>)"

definition ex_shellWrap :: shellWrapFun where
  "ex_shellWrap as envVars sh dbg =
     (if sh then [''/bin/sh'', ''-c'', strings_Join (envVars @ as) '' ''] else envVars @ as)"

definition ex_dep :: "target \<Rightarrow> SingleTargetStates" where
  "ex_dep t =
     zero_SingleTargetStates
       \<lparr>Target := t,
        SideEffectsState := llb_Image (TargetName t) [],
        ArtifactsState := llb_Image (TargetName t @ ''-artifacts'') [],
        SaveImages :=
          (if TargetName t = ''image''
           then [\<lparr>SaveImage.State = llb_Image ''saved'' [],
                  Image = NewImage\<lparr>Config := (Config NewImage)\<lparr>Env := [''MODE=release'']\<rparr>\<rparr>,
                  DockerTag = ''saved:latest'', Push = False\<rparr>]
           else []),
        LocalDirs := [''lib-context'' \<mapsto> ''/src/lib'']\<rparr>"

definition K0 :: Collab where
  "K0 = \<lparr>ParseTarget = ex_ParseTarget,
          ParseArtifact = ex_ParseArtifact,
          JoinTargets = (\<lambda>b r. Inr (if ProjectPath r = [] then r\<lparr>ProjectPath := ProjectPath b\<rparr>
                                      else r)),
          Target_String = ex_Target_String,
          StringCanonical = (\<lambda>t. ProjectPath t @ '':'' @ Tag t @ ''+'' @ TargetName t),
          ProjectCanonical = ProjectPath,
          IsExternal = (\<lambda>t. ProjectPath t \<noteq> []),
          IsLocalInternal = (\<lambda>t. ProjectPath t = []),
          Artifact_String = (\<lambda>a. ex_Target_String (ArtifactTarget a) @ Artifact a),
          parseMounts = (\<lambda>ms t ti cc. Inr []),
          withShellAndEnvVars = ex_shellWrap,
          withDockerdWrapOld = ex_shellWrap,
          withShell = (\<lambda>as sh. if sh then [''/bin/sh'', ''-c'', strings_Join as '' ''] else as),
          splitWildcards = (\<lambda>s. (s, [])),
          debuggerPath = ''/usr/bin/earth_debugger'',
          DebuggerSettingsSecretsKey = ''debugger'',
          DockerfileMetaTarget = ''dockerfile'',
          builtinBuildArgs = (\<lambda>t g. []),
          Earthfile2LLB = (\<lambda>t opt. Inr \<lparr>FinalStates = ex_dep t,
                                          VisitedStates = ConvertOpt.VisitedStates opt\<rparr>),
          WithDockerRun_Run = (\<lambda>as opt c. (None, c)),
          Abs = (\<lambda>s p. Inr p),
          Resolve = (\<lambda>t. Inl (ErrorNew ''not resolved'')),
          ResolveImageConfig = (\<lambda>n m l. Inl (ErrorNew ''not resolved'')),
          dockerBuilderFun = (\<lambda>m t f. None),
          artifactBuilderFun = (\<lambda>m a d. None),
          dockertar_GetID = (\<lambda>f. Inr ''id''),
          path_Join = (\<lambda>ps. strings_Join ps ''/''),
          path_Base = (\<lambda>p. p),
          path_IsAbs = (\<lambda>p. strings_HasPrefix p ''/''),
          filepath_Join = (\<lambda>ps. strings_Join ps ''/''),
          sha256_Sum256 = (\<lambda>s. s),
          fnv_Sum32a = (\<lambda>s. ''0''),
          ioutil_ReadFile = (\<lambda>p. Inl (ErrorNew ''no file'')),
          ioutil_TempDir = (\<lambda>d p. Inr (d @ ''/'' @ p)),
          ParseNormalizedNamed = Inr,
          TagNameOnly = (\<lambda>r. r),
          WithDigest = (\<lambda>r d. Inr (r @ ''@'' @ d)),
          json_Unmarshal_Image = (\<lambda>s. Inr NewImage),
          Dockerfile2LLB = (\<lambda>d b n m t vc. Inl (ErrorNew ''no dockerfile''))\<rparr>"

definition t0 :: target where
  "t0 = \<lparr>ProjectPath = [], Tag = [], LocalPath = ''.'', TargetName = ''app''\<rparr>"

definition bc0 :: Data where
  "bc0 = \<lparr>BuildFilePath = ''./Earthfile'', BuildContext = llb_Local ''.'' [],
          GitMetadata = [], LocalDirs = Map.empty\<rparr>"

definition opt0 :: ConvertOpt where
  "opt0 = \<lparr>ImageResolveMode = ResolveModeDefault, VisitedStates = (\<lambda>k. []),
           VarCollection = NewCollection, SolveCache = Map.empty\<rparr>"

definition c0 :: Converter where
  "c0 = NewConverter K0 t0 bc0 opt0 ''salt''"

definition ex_run :: "string \<Rightarrow> bool \<Rightarrow> RunCall" where
  "ex_run a p = \<lparr>args = [a], mounts = [], secretKeyValues = [], privileged = False,
     withEntrypoint = False, withDocker = False, isWithShell = True, pushFlag = p,
     withSSH = False\<rparr>"

definition c_entry :: Converter where
  "c_entry = Entrypoint_cmd K0 (Cmd_cmd K0 c0 [''--serve''] False) [''/bin/app''] False"

definition run_entry :: RunCall where
  "run_entry = \<lparr>args = [], mounts = [], secretKeyValues = [], privileged = False,
     withEntrypoint = True, withDocker = False, isWithShell = True, pushFlag = True,
     withSSH = False\<rparr>"



definition ex_cmds :: "command list" where
  "ex_cmds = [C_From ''scratch'' [], C_Run (ex_run ''make'' False),
              C_SaveArtifact ''/out/x'' ''x'' ''./x'', C_SaveImage [''app:latest''] False,
              C_SaveArtifact ''/out/y'' ''y'' ''./y'']"

definition opt_over :: ConvertOpt where
  "opt_over = opt0\<lparr>VarCollection :=
     \<lparr>activeVariables = [], overridingVariables = [(''GLOBAL'', Constant ''x'')]\<rparr>\<rparr>"

definition c_over :: Converter where
  "c_over = NewConverter K0 t0 bc0 opt_over ''salt''"

definition t_other :: target where
  "t_other = \<lparr>ProjectPath = ''other'', Tag = [], LocalPath = ''other'', TargetName = ''t''\<rparr>"

definition t_child :: target where
  "t_child = \<lparr>ProjectPath = [], Tag = [], LocalPath = [], TargetName = ''child''\<rparr>"


section \<open>Theorems\<close>


section \<open>RUN and RUN --push\<close>

lemma Run_call_internalRun:
  "Run_call K c r =
     (case parseMounts K (mounts r) (Target (FS c)) (TargetInput (FS c)) (cacheContext c) of
        Inl err \<Rightarrow> (Some (Wrap err ''parse mounts''), c)
      | Inr mountRunOpts \<Rightarrow>
          internalRun K c (Run_finalArgs c r) (secretKeyValues r)
            (if withEntrypoint r then False else isWithShell r)
            (if withDocker r then withDockerdWrapOld K else withShellAndEnvVars K)
            (pushFlag r) (withSSH r) (Run_runStr c r)
            ((if privileged r then mountRunOpts @ [Security_Insecure] else mountRunOpts)
               @ [WithCustomName (vertexPrefix K c @ Run_runStr c r)]))"
  unfolding Run_call_def Run_def Run_finalArgs_def Run_runStr_def Let_def
  by (rule refl)

lemma internalRun_push:
  "internalRun K c as ss sh sw True ssh cs opts =
     (case internalRun_finalOpts K c as ss sh sw ssh opts of
        Inl err \<Rightarrow> (Some err, c)
      | Inr finalOpts \<Rightarrow>
          (None, FS_update (\<lambda>s. s\<lparr>RunPush :=
                \<lparr>Initialized = True,
                 State = Run_Root (if Initialized (RunPush s) then State (RunPush s)
                                   else SideEffectsState s) (finalOpts @ [IgnoreCache]),
                 CommandStrs = CommandStrs (RunPush s) @ [cs]\<rparr>\<rparr>) c))"
  by (cases "internalRun_finalOpts K c as ss sh sw ssh opts")
     (simp_all add: internalRun_def Let_def)

lemma internalRun_no_push:
  "internalRun K c as ss sh sw False ssh cs opts =
     (case internalRun_finalOpts K c as ss sh sw ssh opts of
        Inl err \<Rightarrow> (Some err, c)
      | Inr finalOpts \<Rightarrow>
          (None, set_SideEffectsState (Run_Root (SideEffectsState (FS c)) finalOpts) c))"
  by (cases "internalRun_finalOpts K c as ss sh sw ssh opts")
     (simp_all add: internalRun_def)

lemma Run_call_unfold:
  "Run_call K c r =
     (case Run_finalOpts K c r of
        Inl err \<Rightarrow> (Some err, c)
      | Inr finalOpts \<Rightarrow>
          (if pushFlag r then
             (None, FS_update (\<lambda>s. s\<lparr>RunPush :=
                \<lparr>Initialized = True,
                 State = Run_Root (if Initialized (RunPush s) then State (RunPush s)
                                   else SideEffectsState s) (finalOpts @ [IgnoreCache]),
                 CommandStrs = CommandStrs (RunPush s) @ [Run_runStr c r]\<rparr>\<rparr>) c)
           else (None, set_SideEffectsState (Run_Root (SideEffectsState (FS c)) finalOpts) c)))"
proof (cases "parseMounts K (mounts r) (Target (FS c)) (TargetInput (FS c)) (cacheContext c)")
  case (Inl err)
  then show ?thesis by (simp add: Run_call_internalRun Run_finalOpts_def)
next
  case (Inr mo)
  show ?thesis
  proof (cases "pushFlag r")
    case True
    then show ?thesis
      using Inr by (simp add: Run_call_internalRun Run_finalOpts_def internalRun_push
                      split del: if_split cong: if_cong sum.case_cong)
  next
    case False
    then show ?thesis
      using Inr by (simp add: Run_call_internalRun Run_finalOpts_def internalRun_no_push
                      split del: if_split cong: if_cong sum.case_cong)
  qed
qed

lemma Run_finalOpts_frame:
  "Run_frame c c' \<Longrightarrow> Run_finalOpts K c' r = Run_finalOpts K c r"
  by (simp add: Run_frame_def Run_finalOpts_def Run_finalArgs_def Run_runStr_def
        internalRun_finalOpts_def vertexPrefix_def cong: sum.case_cong)

lemma Run_runStr_frame: "Run_frame c c' \<Longrightarrow> Run_runStr c' r = Run_runStr c r"
  by (simp add: Run_frame_def Run_runStr_def Run_finalArgs_def)

lemma Run_call_frame: "Run_frame c c' \<Longrightarrow> Run_frame c (snd (Run_call K c' r))"
  by (simp add: Run_call_unfold Run_frame_def split: sum.splits)

lemma Run_ok_frame:
  "Run_frame c c' \<Longrightarrow> (fst (Run_call K c' r) = None) = (fst (Run_call K c r) = None)"
  by (simp add: Run_call_unfold Run_finalOpts_frame split: sum.splits)

lemma Run_call_SES:
  "Run_frame c c' \<Longrightarrow> SideEffectsState (FS (snd (Run_call K c' r))) =
     (if fst (Run_call K c r) = None \<and> \<not> pushFlag r
      then Run_Root (SideEffectsState (FS c')) (Run_opts K c r)
      else SideEffectsState (FS c'))"
  by (simp add: Run_call_unfold Run_finalOpts_frame Run_opts_def split: sum.splits)

lemma Run_call_RunPush:
  "Run_frame c c' \<Longrightarrow> RunPush (FS (snd (Run_call K c' r))) =
     (if fst (Run_call K c r) = None \<and> pushFlag r
      then \<lparr>Initialized = True,
            State = Run_Root (if Initialized (RunPush (FS c')) then State (RunPush (FS c'))
                              else SideEffectsState (FS c')) (Run_opts K c r @ [IgnoreCache]),
            CommandStrs = CommandStrs (RunPush (FS c')) @ [Run_runStr c r]\<rparr>
      else RunPush (FS c'))"
  by (simp add: Run_call_unfold Run_finalOpts_frame Run_runStr_frame Run_opts_def split: sum.splits)

lemma Run_all_Cons: "Run_all K c (r # rs) = Run_all K (snd (Run_call K c r)) rs"
  by (simp add: Run_all_def)

lemma Run_all_Nil: "Run_all K c [] = c"
  by (simp add: Run_all_def)

lemma Run_all_append: "Run_all K c (xs @ ys) = Run_all K (Run_all K c xs) ys"
  by (simp add: Run_all_def)

lemma Run_all_frame: "Run_frame c c' \<Longrightarrow> Run_frame c (Run_all K c' rs)"
  by (induction rs arbitrary: c') (simp_all add: Run_all_Nil Run_all_Cons Run_call_frame)

lemma Run_frame_refl: "Run_frame c c"
  by (simp add: Run_frame_def)

lemma Run_all_SES:
  "Run_frame c c' \<Longrightarrow> SideEffectsState (FS (Run_all K c' rs)) =
     foldl (\<lambda>s r. Run_Root s (Run_opts K c r)) (SideEffectsState (FS c'))
       (filter (\<lambda>r. \<not> pushFlag r) (Run_applied K c rs))"
proof (induction rs arbitrary: c')
  case Nil
  then show ?case by (simp add: Run_all_Nil Run_applied_def)
next
  case (Cons r rs)
  have fr: "Run_frame c (snd (Run_call K c' r))"
    using Cons.prems by (rule Run_call_frame)
  show ?case
    using Cons.IH[OF fr] Run_call_SES[OF Cons.prems, of K r]
    by (simp add: Run_all_Cons Run_applied_def)
qed

lemma Run_all_CommandStrs:
  "Run_frame c c' \<Longrightarrow> CommandStrs (RunPush (FS (Run_all K c' rs))) =
     CommandStrs (RunPush (FS c')) @ map (Run_runStr c) (filter pushFlag (Run_applied K c rs))"
proof (induction rs arbitrary: c')
  case Nil
  then show ?case by (simp add: Run_all_Nil Run_applied_def)
next
  case (Cons r rs)
  have fr: "Run_frame c (snd (Run_call K c' r))"
    using Cons.prems by (rule Run_call_frame)
  show ?case
    using Cons.IH[OF fr] Run_call_RunPush[OF Cons.prems, of K r]
    by (simp add: Run_all_Cons Run_applied_def)
qed

lemma Run_all_Initialized:
  "Run_frame c c' \<Longrightarrow> Initialized (RunPush (FS (Run_all K c' rs))) =
     (Initialized (RunPush (FS c')) \<or> filter pushFlag (Run_applied K c rs) \<noteq> [])"
proof (induction rs arbitrary: c')
  case Nil
  then show ?case by (simp add: Run_all_Nil Run_applied_def)
next
  case (Cons r rs)
  have fr: "Run_frame c (snd (Run_call K c' r))"
    using Cons.prems by (rule Run_call_frame)
  show ?case
    using Cons.IH[OF fr] Run_call_RunPush[OF Cons.prems, of K r]
    by (simp add: Run_all_Cons Run_applied_def)
qed

lemma Run_all_State_initialized:
  "Run_frame c c' \<Longrightarrow> Initialized (RunPush (FS c')) \<Longrightarrow>
   State (RunPush (FS (Run_all K c' rs))) =
     foldl (\<lambda>s r. Run_Root s (Run_opts K c r @ [IgnoreCache])) (State (RunPush (FS c')))
       (filter pushFlag (Run_applied K c rs))"
proof (induction rs arbitrary: c')
  case Nil
  then show ?case by (simp add: Run_all_Nil Run_applied_def)
next
  case (Cons r rs)
  have fr: "Run_frame c (snd (Run_call K c' r))"
    using Cons.prems(1) by (rule Run_call_frame)
  have ini: "Initialized (RunPush (FS (snd (Run_call K c' r))))"
    using Cons.prems Run_call_RunPush[OF Cons.prems(1), of K r] by simp
  show ?case
    using Cons.IH[OF fr ini] Run_call_RunPush[OF Cons.prems(1), of K r] Cons.prems(2)
    by (simp add: Run_all_Cons Run_applied_def)
qed

lemma Run_all_RunPush_no_push:
  "Run_frame c c' \<Longrightarrow> filter pushFlag (Run_applied K c rs) = [] \<Longrightarrow>
   RunPush (FS (Run_all K c' rs)) = RunPush (FS c')"
proof (induction rs arbitrary: c')
  case Nil
  then show ?case by (simp add: Run_all_Nil)
next
  case (Cons r rs)
  have fr: "Run_frame c (snd (Run_call K c' r))"
    using Cons.prems(1) by (rule Run_call_frame)
  have np: "filter pushFlag (Run_applied K c rs) = []"
    using Cons.prems(2) by (simp add: Run_applied_def split: if_splits)
  have nr: "\<not> (fst (Run_call K c r) = None \<and> pushFlag r)"
    using Cons.prems(2) by (auto simp add: Run_applied_def split: if_splits)
  show ?case
    using Cons.IH[OF fr np] Run_call_RunPush[OF Cons.prems(1), of K r] nr
    by (simp add: Run_all_Cons)
qed

lemma Run_all_State_fork:
  assumes ni: "\<not> Initialized (RunPush (FS c))"
    and pre: "filter pushFlag (Run_applied K c pre) = []"
    and ok: "fst (Run_call K c r) = None" and push: "pushFlag r"
  shows "State (RunPush (FS (Run_all K c (pre @ r # post)))) =
     foldl (\<lambda>s r. Run_Root s (Run_opts K c r @ [IgnoreCache]))
       (SideEffectsState (FS (Run_all K c pre)))
       (filter pushFlag (Run_applied K c (r # post)))"
proof -
  let ?c1 = "Run_all K c pre"
  let ?c2 = "snd (Run_call K ?c1 r)"
  have f1: "Run_frame c ?c1" by (rule Run_all_frame[OF Run_frame_refl])
  have f2: "Run_frame c ?c2" using f1 by (rule Run_call_frame)
  have rp1: "RunPush (FS ?c1) = RunPush (FS c)"
    using Run_all_RunPush_no_push[OF Run_frame_refl pre] .
  have rp2: "RunPush (FS ?c2) =
      \<lparr>Initialized = True,
       State = Run_Root (SideEffectsState (FS ?c1)) (Run_opts K c r @ [IgnoreCache]),
       CommandStrs = CommandStrs (RunPush (FS ?c1)) @ [Run_runStr c r]\<rparr>"
    using Run_call_RunPush[OF f1, of K r] ok push ni rp1 by simp
  have ini: "Initialized (RunPush (FS ?c2))" using rp2 by simp
  have "Run_all K c (pre @ r # post) = Run_all K ?c2 post"
    by (simp add: Run_all_append Run_all_Cons)
  then show ?thesis
    using Run_all_State_initialized[OF f2 ini, of K post] rp2 ok push
    by (simp add: Run_applied_def)
qed

text \<open>
  C1. For every sequence of calls of \<open>Run\<close> on one converter: a call with the push flag
  leaves \<open>SideEffectsState\<close> as it is; \<open>RunPush.Initialized\<close> holds afterwards iff it held
  before or some call with the push flag was applied (did not fail); \<open>SideEffectsState\<close> is
  the runs without the push flag, in order, on the state before; every applied call with
  the push flag appends its command string to \<open>RunPush.CommandStrs\<close>; and when \<open>RunPush\<close>
  was not initialized and \<open>r\<close> is the first applied call with the push flag,
  \<open>RunPush.State\<close> is the runs with the push flag from \<open>r\<close> on, each with \<open>IgnoreCache\<close>
  added, on the \<open>SideEffectsState\<close> as it was when \<open>r\<close> was called.
\<close>

theorem Run_push_fork:
  "(pushFlag r \<longrightarrow>
      SideEffectsState (FS (snd (Run_call K c r))) = SideEffectsState (FS c))
   \<and> Initialized (RunPush (FS (Run_all K c rs))) =
       (Initialized (RunPush (FS c)) \<or> (\<exists>p \<in> set (Run_applied K c rs). pushFlag p))
   \<and> SideEffectsState (FS (Run_all K c rs)) =
       foldl (\<lambda>s p. Run_Root s (Run_opts K c p)) (SideEffectsState (FS c))
         (filter (\<lambda>p. \<not> pushFlag p) (Run_applied K c rs))
   \<and> CommandStrs (RunPush (FS (Run_all K c rs))) =
       CommandStrs (RunPush (FS c)) @ map (Run_runStr c) (filter pushFlag (Run_applied K c rs))
   \<and> (\<not> Initialized (RunPush (FS c)) \<and> (\<forall>p \<in> set (Run_applied K c pre). \<not> pushFlag p)
        \<and> fst (Run_call K c r) = None \<and> pushFlag r \<longrightarrow>
      State (RunPush (FS (Run_all K c (pre @ r # post)))) =
        foldl (\<lambda>s p. Run_Root s (Run_opts K c p @ [IgnoreCache]))
          (SideEffectsState (FS (Run_all K c pre)))
          (filter pushFlag (Run_applied K c (r # post))))"
proof (intro conjI impI)
  assume "pushFlag r"
  then show "SideEffectsState (FS (snd (Run_call K c r))) = SideEffectsState (FS c)"
    using Run_call_SES[OF Run_frame_refl, of K c r] by simp
next
  show "Initialized (RunPush (FS (Run_all K c rs))) =
       (Initialized (RunPush (FS c)) \<or> (\<exists>p \<in> set (Run_applied K c rs). pushFlag p))"
    using Run_all_Initialized[OF Run_frame_refl, of K c rs]
    by (simp add: filter_empty_conv)
next
  show "SideEffectsState (FS (Run_all K c rs)) =
       foldl (\<lambda>s p. Run_Root s (Run_opts K c p)) (SideEffectsState (FS c))
         (filter (\<lambda>p. \<not> pushFlag p) (Run_applied K c rs))"
    by (rule Run_all_SES[OF Run_frame_refl])
next
  show "CommandStrs (RunPush (FS (Run_all K c rs))) =
       CommandStrs (RunPush (FS c)) @ map (Run_runStr c) (filter pushFlag (Run_applied K c rs))"
    by (rule Run_all_CommandStrs[OF Run_frame_refl])
next
  assume a: "\<not> Initialized (RunPush (FS c)) \<and> (\<forall>p \<in> set (Run_applied K c pre). \<not> pushFlag p)
        \<and> fst (Run_call K c r) = None \<and> pushFlag r"
  then have "filter pushFlag (Run_applied K c pre) = []"
    by (simp add: filter_empty_conv)
  with a show "State (RunPush (FS (Run_all K c (pre @ r # post)))) =
        foldl (\<lambda>s p. Run_Root s (Run_opts K c p @ [IgnoreCache]))
          (SideEffectsState (FS (Run_all K c pre)))
          (filter pushFlag (Run_applied K c (r # post)))"
    using Run_all_State_fork[of c K pre r post] by simp
qed

subsection \<open>Facts about the example collaborators\<close>

lemma K0_sel:
  "ParseTarget K0 = ex_ParseTarget"
  "ParseArtifact K0 = ex_ParseArtifact"
  "JoinTargets K0 = (\<lambda>b r. Inr (if ProjectPath r = [] then r\<lparr>ProjectPath := ProjectPath b\<rparr> else r))"
  "Target_String K0 = ex_Target_String"
  "StringCanonical K0 = (\<lambda>t. ProjectPath t @ '':'' @ Tag t @ ''+'' @ TargetName t)"
  "IsExternal K0 = (\<lambda>t. ProjectPath t \<noteq> [])"
  "IsLocalInternal K0 = (\<lambda>t. ProjectPath t = [])"
  "Artifact_String K0 = (\<lambda>a. ex_Target_String (ArtifactTarget a) @ Artifact a)"
  "parseMounts K0 = (\<lambda>ms t ti cc. Inr [])"
  "withShellAndEnvVars K0 = ex_shellWrap"
  "withDockerdWrapOld K0 = ex_shellWrap"
  "withShell K0 = (\<lambda>as sh. if sh then [''/bin/sh'', ''-c'', strings_Join as '' ''] else as)"
  "debuggerPath K0 = ''/usr/bin/earth_debugger''"
  "DebuggerSettingsSecretsKey K0 = ''debugger''"
  "Earthfile2LLB K0 = (\<lambda>t opt. Inr \<lparr>FinalStates = ex_dep t,
                                          VisitedStates = ConvertOpt.VisitedStates opt\<rparr>)"
  "path_Join K0 = (\<lambda>ps. strings_Join ps ''/'')"
  "builtinBuildArgs K0 = (\<lambda>t g. [])"
  by (simp_all add: K0_def)

lemma c0_FS:
  "FS c0 = \<lparr>Target = t0,
             TargetInput = MkTargetInput '':+app'' [],
             SideEffectsState = Platform llb_Scratch, SideEffectsImage = NewImage,
             ArtifactsState = Platform llb_Scratch, SeparateArtifactsState = [],
             SaveLocals = [], SaveImages = [],
             RunPush = \<lparr>Initialized = False, State = NoState, CommandStrs = []\<rparr>,
             LocalDirs = Map.empty, Ongoing = True, Salt = ''salt''\<rparr>"
  by (simp add: c0_def NewConverter_def K0_sel t0_def bc0_def opt0_def NewCollection_def
        SortedOverridingVariables_def Let_def)

lemma c0_varCollection: "varCollection c0 = NewCollection"
  by (simp add: c0_def NewConverter_def K0_sel opt0_def NewCollection_def
        WithBuiltinBuildArgs_def Let_def)


lemma ex_run_opts:
  "Run_finalOpts K0 c0 (ex_run a p) =
     Inr [WithCustomName (''[+app salt] RUN '' @ (if p then ''--push '' else []) @ a),
          AddSecret ''/run/secrets/debugger'' [SecretID ''debugger'', SecretFileOpt 0 0 292],
          AddMount ''/usr/bin/earth_debugger'' llb_Scratch
            [HostBind, SourcePath ''/usr/bin/earth_debugger''],
          AddMount ''/run/earthly'' llb_Scratch [HostBind, SourcePath ''/run/earthly''],
          Args [''/bin/sh'', ''-c'', a]]"
  by (simp add: Run_finalOpts_def ex_run_def internalRun_finalOpts_def Run_finalArgs_def
        Run_runStr_def strIf_def vertexPrefix_def ex_shellWrap_def K0_sel c0_FS
        c0_varCollection NewCollection_def SortedActiveVariables_def t0_def
        ex_Target_String_def)

lemma ex_run_ok: "fst (Run_call K0 c0 (ex_run a p)) = None"
  by (simp add: Run_call_unfold ex_run_opts)

lemma ex_run_push: "pushFlag (ex_run a p) = p"
  by (simp add: ex_run_def)

lemma ex_run_str:
  "Run_runStr c0 (ex_run a p) = ''RUN '' @ (if p then ''--push '' else []) @ a"
  by (simp add: Run_runStr_def Run_finalArgs_def ex_run_def strIf_def)

theorem Run_push_fork_witness:
  "pushFlag (ex_run ''b'' True)
   \<and> SideEffectsState (FS (snd (Run_call K0 c0 (ex_run ''b'' True)))) = Platform llb_Scratch
   \<and> \<not> Initialized (RunPush (FS c0))
   \<and> filter pushFlag (Run_applied K0 c0 [ex_run ''a'' False]) = []
   \<and> fst (Run_call K0 c0 (ex_run ''b'' True)) = None
   \<and> Initialized (RunPush (FS (Run_all K0 c0
         [ex_run ''a'' False, ex_run ''b'' True, ex_run ''c'' False, ex_run ''d'' True])))
   \<and> SideEffectsState (FS (Run_all K0 c0
         [ex_run ''a'' False, ex_run ''b'' True, ex_run ''c'' False, ex_run ''d'' True])) =
       Run_Root (Run_Root (Platform llb_Scratch) (Run_opts K0 c0 (ex_run ''a'' False)))
         (Run_opts K0 c0 (ex_run ''c'' False))
   \<and> CommandStrs (RunPush (FS (Run_all K0 c0
         [ex_run ''a'' False, ex_run ''b'' True, ex_run ''c'' False, ex_run ''d'' True]))) =
       [''RUN --push b'', ''RUN --push d'']
   \<and> State (RunPush (FS (Run_all K0 c0
         [ex_run ''a'' False, ex_run ''b'' True, ex_run ''c'' False, ex_run ''d'' True]))) =
       Run_Root
         (Run_Root (Run_Root (Platform llb_Scratch) (Run_opts K0 c0 (ex_run ''a'' False)))
            (Run_opts K0 c0 (ex_run ''b'' True) @ [IgnoreCache]))
         (Run_opts K0 c0 (ex_run ''d'' True) @ [IgnoreCache])"
  using Run_push_fork [of "ex_run ''b'' True" K0 c0
      "[ex_run ''a'' False, ex_run ''b'' True, ex_run ''c'' False, ex_run ''d'' True]"
      "[ex_run ''a'' False]" "[ex_run ''c'' False, ex_run ''d'' True]"]
  by (simp add: Run_applied_def ex_run_ok ex_run_push ex_run_str c0_FS
        Run_all_SES[OF Run_frame_refl])

section \<open>The cache key\<close>

text \<open>
  C5. Two targets that differ only in their tag have the same cache key: the key is the
  hexadecimal SHA-256 of the canonical string of the target with its tag emptied.
\<close>

theorem cacheKey_ignores_tag:
  "cacheKey K (t\<lparr>Tag := tag1\<rparr>) = cacheKey K (t\<lparr>Tag := tag2\<rparr>)
   \<and> cacheKey K t = hex_EncodeToString (sha256_Sum256 K (StringCanonical K (t\<lparr>Tag := []\<rparr>)))"
  by (simp add: cacheKey_def)

section \<open>RUN --entrypoint\<close>

lemma Run_finalArgs_entrypoint:
  "withEntrypoint r \<Longrightarrow> Run_finalArgs c r = Entrypoint (Config (SideEffectsImage (FS c))) @ args r"
  by (simp add: Run_finalArgs_def)

lemma c_entry_FS:
  "FS c_entry = (FS c0)\<lparr>SideEffectsImage :=
      NewImage\<lparr>Config := (Config NewImage)\<lparr>Cmd := [''--serve''], Entrypoint := [''/bin/app'']\<rparr>\<rparr>\<rparr>"
  by (simp add: c_entry_def Entrypoint_cmd_def Cmd_cmd_def K0_sel c0_FS)

lemma c_entry_varCollection: "varCollection c_entry = NewCollection"
  by (simp add: c_entry_def Entrypoint_cmd_def Cmd_cmd_def c0_varCollection)

lemma run_entry_opts:
  "Run_finalOpts K0 c_entry run_entry =
     Inr [WithCustomName ''[+app salt] RUN --entrypoint --push /bin/app'',
          AddSecret ''/run/secrets/debugger'' [SecretID ''debugger'', SecretFileOpt 0 0 292],
          AddMount ''/usr/bin/earth_debugger'' llb_Scratch
            [HostBind, SourcePath ''/usr/bin/earth_debugger''],
          AddMount ''/run/earthly'' llb_Scratch [HostBind, SourcePath ''/run/earthly''],
          Args [''/bin/app'']]"
  by (simp add: Run_finalOpts_def run_entry_def internalRun_finalOpts_def Run_finalArgs_def
        Run_runStr_def strIf_def vertexPrefix_def ex_shellWrap_def K0_sel c_entry_FS c0_FS
        c_entry_varCollection NewCollection_def SortedActiveVariables_def t0_def
        ex_Target_String_def NewImage_def)

text \<open>
  C2. \<open>Run\<close> with \<open>withEntrypoint\<close> and no arguments, on an image whose entrypoint is
  \<open>/bin/app\<close> and whose CMD is \<open>--serve\<close>: the call succeeds, the shell is not used, and the
  arguments that are run and named in the command string are the entrypoint alone; the
  image's CMD is not among them.
\<close>

theorem Run_entrypoint_ignores_cmd:
  "args run_entry = [] \<and> withEntrypoint run_entry
   \<and> Entrypoint (Config (SideEffectsImage (FS c_entry))) = [''/bin/app'']
   \<and> Cmd (Config (SideEffectsImage (FS c_entry))) = [''--serve'']
   \<and> fst (Run_call K0 c_entry run_entry) = None
   \<and> CommandStrs (RunPush (FS (snd (Run_call K0 c_entry run_entry)))) =
       [''RUN --entrypoint --push /bin/app'']
   \<and> State (RunPush (FS (snd (Run_call K0 c_entry run_entry)))) =
       Run_Root (Platform llb_Scratch)
         [WithCustomName ''[+app salt] RUN --entrypoint --push /bin/app'',
          AddSecret ''/run/secrets/debugger'' [SecretID ''debugger'', SecretFileOpt 0 0 292],
          AddMount ''/usr/bin/earth_debugger'' llb_Scratch
            [HostBind, SourcePath ''/usr/bin/earth_debugger''],
          AddMount ''/run/earthly'' llb_Scratch [HostBind, SourcePath ''/run/earthly''],
          Args [''/bin/app''],
          IgnoreCache]"
  by (simp add: Run_call_unfold run_entry_opts c_entry_FS c0_FS NewImage_def
        Run_runStr_def Run_finalArgs_def strIf_def)
     (simp add: run_entry_def)

section \<open>FinalizeStates\<close>

lemma FinalizeStates_fold:
  "fold (\<lambda>depStates c'.
           set_SideEffectsState
             (withDependency K (SideEffectsState (FS c')) (Target (FS c'))
                (SideEffectsState depStates) (Target depStates)) c') ds c =
   set_SideEffectsState
     (foldl (\<lambda>st d. withDependency K st (Target (FS c)) (SideEffectsState d) (Target d))
        (SideEffectsState (FS c)) ds) c"
proof (induction ds arbitrary: c)
  case Nil
  show ?case by simp
next
  case (Cons d ds)
  show ?case by (simp add: Cons.IH)
qed



lemma FinalizeStates_snd:
  "snd (FinalizeStates K c) =
     FS_update (\<lambda>s. s\<lparr>SideEffectsState :=
         foldl (\<lambda>st d. withDependency K st (Target (FS c)) (SideEffectsState d) (Target d))
           (SideEffectsState (FS c)) (directDeps c),
       Ongoing := False\<rparr>) c"
  by (simp add: FinalizeStates_def Let_def FinalizeStates_fold)


section \<open>Build arguments\<close>

lemma internalRun_finalOpts_no_secrets:
  "internalRun_finalOpts K c as [] sh sw False opts =
     Inr (case internalRun_buildArgs K (varCollection c)
                 (SortedActiveVariables (varCollection c)) opts [] of
            (finalOpts, extraEnvVars) \<Rightarrow>
              finalOpts @
              [AddSecret (''/run/secrets/'' @ DebuggerSettingsSecretsKey K)
                 [SecretID (DebuggerSettingsSecretsKey K), SecretFileOpt 0 0 292],
               AddMount (debuggerPath K) llb_Scratch
                 [HostBind, SourcePath ''/usr/bin/earth_debugger''],
               AddMount ''/run/earthly'' llb_Scratch [HostBind, SourcePath ''/run/earthly''],
               Args (sw as extraEnvVars sh True)])"
  by (simp add: internalRun_finalOpts_def Let_def split: prod.splits)

lemma buildArg_runOpts_frame:
  "buildArg_runOpts K (set_SideEffectsState x c) name expression =
     buildArg_runOpts K c name expression"
  by (simp add: buildArg_runOpts_def vertexPrefix_def)

lemma processNonConstantBuildArgFunc_eq:
  "processNonConstantBuildArgFunc K name expression c =
     ((CopyOp
         (Run_Root
            (File (SideEffectsState (FS c)) (Mkdir ''/run/buildargs-src'' 493 [WithParents True])
               ''[internal] mkdir /run/buildargs-src'')
            (buildArg_runOpts K c name expression))
         [path_Join K [''/run/buildargs-src'', name]] (Platform llb_Scratch)
         (path_Join K [''/run/buildargs'', name]) False False []
         (''[internal] copy buildarg '' @ name),
       TargetInput (FS c), nextArgIndex c, None),
      (set_SideEffectsState
         (File
            (Run_Root
               (File (SideEffectsState (FS c))
                  (Mkdir ''/run/buildargs-src'' 493 [WithParents True])
                  ''[internal] mkdir /run/buildargs-src'')
               (buildArg_runOpts K c name expression))
            (Rm (path_Join K [''/run/buildargs-src'', name]) True)
            (''[internal] rm '' @ path_Join K [''/run/buildargs-src'', name])) c)
        \<lparr>nextArgIndex := nextArgIndex c + 1\<rparr>)"
  by (simp add: processNonConstantBuildArgFunc_def internalRun_no_push
        internalRun_finalOpts_no_secrets buildArg_runOpts_def buildArg_echo_def
        vertexPrefix_def Let_def)

lemma buildArgs_frame_refl: "buildArgs_frame c c"
  by (simp add: buildArgs_frame_def)

lemma buildArgs_frame_pncvf:
  "buildArgs_frame c c' \<Longrightarrow>
   buildArgs_frame c (snd (processNonConstantBuildArgFunc K name expression c'))"
proof -
  assume a: "buildArgs_frame c c'"
  have "c' = (set_SideEffectsState (SideEffectsState (FS c')) c)\<lparr>nextArgIndex := nextArgIndex c'\<rparr>"
    using a by (simp add: buildArgs_frame_def)
  then obtain x n where c': "c' = (set_SideEffectsState x c)\<lparr>nextArgIndex := n\<rparr>"
    by blast
  show ?thesis
    by (simp add: processNonConstantBuildArgFunc_eq buildArgs_frame_def c')
qed

lemma parseBuildArgs_preserves:
  assumes step: "\<And>n e s. P s \<Longrightarrow> P (snd (pncvf n e s))"
  shows "P st \<Longrightarrow> P (snd (parseBuildArgs vc pncvf as parsed st))"
proof (induction as arbitrary: parsed st)
  case Nil
  then show ?case by simp
next
  case (Cons a as)
  show ?case
  proof (cases "CHR ''='' \<in> set a")
    case True
    then show ?thesis using Cons by simp
  next
    case False
    show ?thesis
    proof (cases "map_of (activeVariables vc) a")
      case (Some b)
      then show ?thesis using False Cons by simp
    next
      case None
      obtain state ti idx err st' where r: "pncvf a a st = ((state, ti, idx, err), st')"
        by (cases "pncvf a a st") auto
      have P': "P st'" using step[OF Cons.prems, of a a] r by simp
      show ?thesis
      proof (cases err)
        case None': None
        show ?thesis using False None r None' Cons.IH[OF P'] by simp
      next
        case (Some e)
        show ?thesis using False None r Some P' by simp
      qed
    qed
  qed
qed

lemma WithParseBuildArgs_preserves:
  assumes step: "\<And>n e s. P s \<Longrightarrow> P (snd (pncvf n e s))" and st: "P st"
  shows "P (snd (WithParseBuildArgs vc as pncvf st))"
proof -
  have "P (snd (parseBuildArgs vc pncvf as [] st))"
    using step st by (rule parseBuildArgs_preserves)
  then show ?thesis
    by (auto simp add: WithParseBuildArgs_def split: prod.splits sum.splits)
qed

lemma snd_case_sum_prod:
  "snd (case x of (Inl e, c1) \<Rightarrow> (f e c1, c1) | (Inr v, c1) \<Rightarrow> (g v c1, c1)) = snd x"
  by (auto split: prod.splits sum.splits)

lemma WithParseBuildArgs_frame:
  "buildArgs_frame c c' \<Longrightarrow>
   buildArgs_frame c (snd (WithParseBuildArgs vc as (processNonConstantBuildArgFunc K) c'))"
  by (rule WithParseBuildArgs_preserves) (simp_all add: buildArgs_frame_pncvf)

lemma Build_ConvertOpt_frame:
  "buildArgs_frame c (snd (Build_ConvertOpt K c fullTargetName buildArgs))"
proof -
  have "buildArgs_frame c
     (snd (WithParseBuildArgs vc buildArgs (processNonConstantBuildArgFunc K) c))" for vc
    by (rule WithParseBuildArgs_frame[OF buildArgs_frame_refl])
  then show ?thesis
    by (simp add: Build_ConvertOpt_def Let_def buildArgs_frame_refl snd_case_sum_prod
          split: sum.splits)
qed

lemma Build_snd:
  "snd (Build K c fullTargetName buildArgs) =
     (case fst (Build K c fullTargetName buildArgs) of
        Inl err \<Rightarrow> snd (Build_ConvertOpt K c fullTargetName buildArgs)
      | Inr m \<Rightarrow> (snd (Build_ConvertOpt K c fullTargetName buildArgs))
                   \<lparr>directDeps :=
                      directDeps (snd (Build_ConvertOpt K c fullTargetName buildArgs))
                        @ [FinalStates m]\<rparr>)"
  by (simp add: Build_def split: sum.splits prod.splits)

lemma buildArgs_frame_FS:
  "buildArgs_frame c c' \<Longrightarrow> FS c' = (FS c)\<lparr>SideEffectsState := SideEffectsState (FS c')\<rparr>"
proof -
  assume "buildArgs_frame c c'"
  then have e: "c' = (set_SideEffectsState (SideEffectsState (FS c')) c)\<lparr>nextArgIndex := nextArgIndex c'\<rparr>"
    by (simp add: buildArgs_frame_def)
  show ?thesis by (subst e) simp
qed

lemma buildArgs_frame_fields:
  assumes "buildArgs_frame c c'"
  shows "directDeps c' = directDeps c" "varCollection c' = varCollection c"
    "VisitedStates (mts c') = VisitedStates (mts c)" "cleanCollection c' = cleanCollection c"
    "buildContext c' = buildContext c" "cacheContext c' = cacheContext c"
    "imageResolveMode c' = imageResolveMode c" "solveCache c' = solveCache c"
proof -
  have e: "c' = (set_SideEffectsState (SideEffectsState (FS c')) c)\<lparr>nextArgIndex := nextArgIndex c'\<rparr>"
    using assms by (simp add: buildArgs_frame_def)
  show "directDeps c' = directDeps c" by (subst e) simp
  show "varCollection c' = varCollection c" by (subst e) simp
  show "VisitedStates (mts c') = VisitedStates (mts c)" by (subst e) simp
  show "cleanCollection c' = cleanCollection c" by (subst e) simp
  show "buildContext c' = buildContext c" by (subst e) simp
  show "cacheContext c' = cacheContext c" by (subst e) simp
  show "imageResolveMode c' = imageResolveMode c" by (subst e) simp
  show "solveCache c' = solveCache c" by (subst e) simp
qed

lemma Build_FS:
  "FS (snd (Build K c fullTargetName buildArgs)) =
     (FS c)\<lparr>SideEffectsState := SideEffectsState (FS (snd (Build K c fullTargetName buildArgs)))\<rparr>"
proof -
  let ?c1 = "snd (Build_ConvertOpt K c fullTargetName buildArgs)"
  have f: "FS ?c1 = (FS c)\<lparr>SideEffectsState := SideEffectsState (FS ?c1)\<rparr>"
    by (rule buildArgs_frame_FS[OF Build_ConvertOpt_frame])
  have "FS (snd (Build K c fullTargetName buildArgs)) = FS ?c1"
    by (simp add: Build_snd split: sum.splits)
  then show ?thesis using f by simp
qed







section \<open>FROM\<close>

lemma strings_Contains_single: "strings_Contains s [x] = (x \<in> set s)"
  by (induction s) (auto simp add: strings_HasPrefix_def)

text \<open>
  C9. \<open>From\<close> on a reference without \<open>+\<close>: with build arguments it fails with the error
  "--build-arg not supported in non-target FROM" and the converter is as before; without
  build arguments it is \<open>fromClassical\<close>. On a reference with \<open>+\<close> it is \<open>fromTarget\<close>,
  whatever the build arguments.
\<close>

theorem From_dispatch:
  "(CHR ''+'' \<notin> set imageName \<and> buildArgs \<noteq> [] \<longrightarrow>
      From K c imageName buildArgs =
        (Some (ErrorNew ''--build-arg not supported in non-target FROM''), c))
   \<and> (CHR ''+'' \<notin> set imageName \<and> buildArgs = [] \<longrightarrow>
      From K c imageName buildArgs = fromClassical K c imageName)
   \<and> (CHR ''+'' \<in> set imageName \<longrightarrow>
      From K c imageName buildArgs = fromTarget K c imageName buildArgs)"
  by (simp add: From_def strings_Contains_single)

theorem From_dispatch_witness:
  "CHR ''+'' \<notin> set ''alpine'' \<and> [''K=V''] \<noteq> []
   \<and> From K0 c0 ''alpine'' [''K=V''] =
       (Some (ErrorNew ''--build-arg not supported in non-target FROM''), c0)
   \<and> From K0 c0 ''alpine'' [] = fromClassical K0 c0 ''alpine''
   \<and> CHR ''+'' \<in> set ''+image''
   \<and> From K0 c0 ''+image'' [''K=V''] = fromTarget K0 c0 ''+image'' [''K=V'']"
  using From_dispatch [of "''alpine''" "[''K=V'']" K0 c0]
    From_dispatch [of "''alpine''" "[]" K0 c0]
    From_dispatch [of "''+image''" "[''K=V'']" K0 c0]
  by simp

section \<open>The exports to the host\<close>

lemma locals_of_FS: "FS c' = FS c \<Longrightarrow> locals_of c' = locals_of c"
  by (simp add: locals_of_def)

lemma locals_of_SES:
  "FS c' = (FS c)\<lparr>SideEffectsState := x\<rparr> \<Longrightarrow> locals_of c' = locals_of c"
  by (simp add: locals_of_def)

lemma locals_of_frame: "buildArgs_frame c c' \<Longrightarrow> locals_of c' = locals_of c"
  by (rule locals_of_SES) (rule buildArgs_frame_FS)

lemma locals_internalRun:
  "locals_of (snd (internalRun K c as ss sh sw push ssh cs opts)) = locals_of c"
  by (cases push)
     (simp_all add: internalRun_push internalRun_no_push locals_of_def split: sum.splits)

lemma locals_Run_call: "locals_of (snd (Run_call K c r)) = locals_of c"
  by (simp add: Run_call_internalRun locals_internalRun split: sum.splits)

lemma locals_Build: "locals_of (snd (Build K c n bas)) = locals_of c"
  by (rule locals_of_SES) (rule Build_FS)

lemma locals_WithParseBuildArgs:
  "locals_of (snd (WithParseBuildArgs vc bas (processNonConstantBuildArgFunc K) c)) = locals_of c"
  by (rule locals_of_frame) (rule WithParseBuildArgs_frame[OF buildArgs_frame_refl])

lemma locals_fromTarget: "locals_of (snd (fromTarget K c n bas)) = locals_of c"
proof (cases "ParseTarget K n")
  case (Inl e)
  then show ?thesis by (simp add: fromTarget_def)
next
  case (Inr depTarget)
  obtain res c1 where b: "Build K c (Target_String K depTarget) bas = (res, c1)"
    by (cases "Build K c (Target_String K depTarget) bas") auto
  have l: "locals_of c1 = locals_of c"
    using locals_Build[of K c "Target_String K depTarget" bas] b by simp
  show ?thesis
    using Inr b l
    by (simp add: fromTarget_def Let_def locals_of_def split: sum.splits option.splits)
qed

lemma locals_fromClassical: "locals_of (snd (fromClassical K c n)) = locals_of c"
  by (simp add: fromClassical_def locals_of_def split: sum.splits prod.splits)

lemma locals_From: "locals_of (snd (From K c n bas)) = locals_of c"
  by (simp add: From_def locals_fromTarget locals_fromClassical)

lemma locals_solveArtifact: "locals_of (snd (solveArtifact K c m a)) = locals_of c"
  by (simp add: solveArtifact_def Let_def locals_of_def split: sum.splits option.splits)

lemma locals_solveAndLoadOld:
  "locals_of (snd (solveAndLoadOld K c m opName dockerTag opts)) = locals_of c"
  by (simp add: solveAndLoadOld_def Let_def locals_of_def split: sum.splits option.splits)

lemma locals_FromDockerfile_context:
  "locals_of (snd (FromDockerfile_context K c contextPath bas)) = locals_of c"
proof (cases "strings_Contains contextPath ''+''")
  case False
  then show ?thesis
    by (simp add: FromDockerfile_context_def Let_def locals_of_def split: sum.splits)
next
  case True
  show ?thesis
  proof (cases "ParseArtifact K contextPath")
    case (Inl e)
    then show ?thesis using True by (simp add: FromDockerfile_context_def)
  next
    case (Inr a)
    obtain res c1 where b: "Build K c (Target_String K (ArtifactTarget a)) bas = (res, c1)"
      by (cases "Build K c (Target_String K (ArtifactTarget a)) bas") auto
    have l: "locals_of c1 = locals_of c"
      using locals_Build[of K c "Target_String K (ArtifactTarget a)" bas] b by simp
    show ?thesis
    proof (cases res)
      case (Inl e)
      then show ?thesis using True Inr b l by (simp add: FromDockerfile_context_def)
    next
      case r: (Inr m)
      obtain res2 c2 where s: "solveArtifact K c1 m a = (res2, c2)"
        by (cases "solveArtifact K c1 m a") auto
      have l2: "locals_of c2 = locals_of c1"
        using locals_solveArtifact[of K c1 m a] s by simp
      show ?thesis using True Inr b r s l l2
        by (simp add: FromDockerfile_context_def Let_def split: sum.splits)
    qed
  qed
qed

lemma locals_FromDockerfile:
  "locals_of (snd (FromDockerfile K c contextPath dfPath dfTarget bas)) = locals_of c"
proof (cases "dfPath \<noteq> []")
  case True
  then show ?thesis by (simp add: FromDockerfile_def)
next
  case False
  obtain res c1 where x: "FromDockerfile_context K c contextPath bas = (res, c1)"
    by (cases "FromDockerfile_context K c contextPath bas") auto
  have l1: "locals_of c1 = locals_of c"
    using locals_FromDockerfile_context[of K c contextPath bas] x by simp
  show ?thesis
  proof (cases res)
    case (Inl e)
    then show ?thesis using False x l1 by (simp add: FromDockerfile_def)
  next
    case (Inr p)
    obtain dfPath' bc' where p: "p = (dfPath', bc')" by (cases p) auto
    obtain res2 c2 where w:
      "WithParseBuildArgs (varCollection c1) bas (processNonConstantBuildArgFunc K) c1 = (res2, c2)"
      by (cases "WithParseBuildArgs (varCollection c1) bas (processNonConstantBuildArgFunc K) c1") auto
    have l2: "locals_of c2 = locals_of c"
      using locals_WithParseBuildArgs[of "varCollection c1" bas K c1] w l1 by simp
    show ?thesis using False x Inr p w l1 l2
      by (simp add: FromDockerfile_def split: sum.splits prod.splits)
         (simp add: locals_of_def)
  qed
qed


lemma locals_CopyArtifact:
  "locals_of (snd (CopyArtifact K c artifactName dest bas isDir chown)) = locals_of c"
proof (cases "ParseArtifact K artifactName")
  case (Inl e)
  then show ?thesis by (simp add: CopyArtifact_def)
next
  case (Inr a)
  obtain res c1 where b: "Build K c (Target_String K (ArtifactTarget a)) bas = (res, c1)"
    by (cases "Build K c (Target_String K (ArtifactTarget a)) bas") auto
  have l: "locals_of c1 = locals_of c"
    using locals_Build[of K c "Target_String K (ArtifactTarget a)" bas] b by simp
  show ?thesis using Inr b l
    by (simp add: CopyArtifact_def Let_def locals_of_def split: sum.splits)
qed

lemma locals_SaveImage_cmd: "locals_of (SaveImage_cmd c imageNames pushImages) = locals_of c"
proof -
  have "locals_of (fold (\<lambda>imageName c'.
                 FS_update (\<lambda>s. s\<lparr>SaveImages := SaveImages s @
                   [\<lparr>SaveImage.State = SideEffectsState s,
                     Image = Clone (SideEffectsImage s),
                     DockerTag = imageName,
                     Push = pushImages\<rparr>]\<rparr>) c') ns c) = locals_of c" for ns
    by (induction ns arbitrary: c) (simp_all add: locals_of_def)
  then show ?thesis by (simp add: SaveImage_cmd_def Let_def)
qed

lemma locals_DockerLoadOld:
  "locals_of (snd (DockerLoadOld K c targetName dockerTag bas)) = locals_of c"
proof (cases "ParseTarget K targetName")
  case (Inl e)
  then show ?thesis by (simp add: DockerLoadOld_def)
next
  case (Inr depTarget)
  obtain res c1 where b: "Build K c (Target_String K depTarget) bas = (res, c1)"
    by (cases "Build K c (Target_String K depTarget) bas") auto
  have l: "locals_of c1 = locals_of c"
    using locals_Build[of K c "Target_String K depTarget" bas] b by simp
  show ?thesis using Inr b l
    by (simp add: DockerLoadOld_def locals_solveAndLoadOld split: sum.splits)
qed

lemma locals_DockerPullOld: "locals_of (snd (DockerPullOld K c dockerTag)) = locals_of c"
  by (simp add: DockerPullOld_def Let_def locals_solveAndLoadOld split: sum.splits prod.splits)

lemma locals_FinalizeStates: "locals_of (snd (FinalizeStates K c)) = locals_of c"
  by (simp add: FinalizeStates_snd locals_of_def)

lemma locals_simple:
  "locals_of (CopyClassical K c srcs dest isDir chown) = locals_of c"
  "locals_of (Workdir K c workdirPath) = locals_of c"
  "locals_of (User_cmd c user) = locals_of c"
  "locals_of (Cmd_cmd K c cmdArgs sh) = locals_of c"
  "locals_of (Entrypoint_cmd K c cmdArgs sh) = locals_of c"
  "locals_of (snd (Expose c ports)) = locals_of c"
  "locals_of (snd (Volume c ports)) = locals_of c"
  "locals_of (Env_cmd c envKey envValue) = locals_of c"
  "locals_of (Arg c argKey defaultArgValue) = locals_of c"
  "locals_of (snd (Label c labels)) = locals_of c"
  "locals_of (snd (GitClone K c gitURL branch dest)) = locals_of c"
  "locals_of (Healthcheck_cmd c isNone cmdArgs interval timeout startPeriod retries) = locals_of c"
  by (simp_all add: CopyClassical_def Workdir_def User_cmd_def Cmd_cmd_def Entrypoint_cmd_def
        Expose_def Volume_def Env_cmd_def Arg_def Label_def GitClone_def Healthcheck_cmd_def
        Let_def locals_of_def split: option.splits prod.splits)

lemma SaveArtifact_locals:
  "locals_of (snd (SaveArtifact K c saveFrom saveTo saveAsLocalTo)) =
     (case SaveArtifact_paths K c saveFrom saveTo of
        Inl err \<Rightarrow> locals_of c
      | Inr (saveToAdjusted, artifactPath) \<Rightarrow>
          (if saveAsLocalTo \<noteq> [] then
             (SeparateArtifactsState (FS c) @
                [CopyOp (SideEffectsState (FS c)) [saveFrom] (Platform llb_Scratch)
                   saveToAdjusted True False []
                   (vertexPrefix K c @ ''SAVE ARTIFACT '' @ saveFrom @ '' ''
                      @ Artifact_String K \<lparr>ArtifactTarget = Target (FS c), Artifact = artifactPath\<rparr>
                      @ '' AS LOCAL '' @ saveAsLocalTo)],
              SaveLocals (FS c) @
                [\<lparr>DestPath = saveAsLocalTo, ArtifactPath = artifactPath,
                  Index = int (length (SeparateArtifactsState (FS c)))\<rparr>])
           else locals_of c))"
proof -
  let ?X = "(if saveTo = [] \<or> saveTo = ''.'' \<or> strings_HasSuffix saveTo ''/'' then
              (case Abs K (SideEffectsState (FS c)) saveFrom of
                 Inl err \<Rightarrow> Inl err
               | Inr absSaveFrom \<Rightarrow>
                   Inr (path_Join K [saveTo, path_Base K (path_Join K [''.'', absSaveFrom])]))
            else Inr saveTo)"
  show ?thesis
  proof (cases ?X)
    case (Inl e)
    show ?thesis
      unfolding SaveArtifact_def SaveArtifact_paths_def Let_def Inl
      by simp
  next
    case (Inr adj0)
    obtain d f where w: "splitWildcards K adj0 = (d, f)"
      by (cases "splitWildcards K adj0") auto
    show ?thesis
    proof (cases "saveAsLocalTo = []")
      case True
      show ?thesis
        unfolding SaveArtifact_def SaveArtifact_paths_def Let_def Inr
        using True w by (simp add: locals_of_def)
    next
      case False
      show ?thesis
        unfolding SaveArtifact_def SaveArtifact_paths_def Let_def Inr
        using False w by (simp add: locals_of_def vertexPrefix_def)
    qed
  qed
qed

lemma SaveArtifact_fst:
  "fst (SaveArtifact K c saveFrom saveTo saveAsLocalTo) =
     (case SaveArtifact_paths K c saveFrom saveTo of Inl err \<Rightarrow> Some err | Inr p \<Rightarrow> None)"
proof -
  let ?X = "(if saveTo = [] \<or> saveTo = ''.'' \<or> strings_HasSuffix saveTo ''/'' then
              (case Abs K (SideEffectsState (FS c)) saveFrom of
                 Inl err \<Rightarrow> Inl err
               | Inr absSaveFrom \<Rightarrow>
                   Inr (path_Join K [saveTo, path_Base K (path_Join K [''.'', absSaveFrom])]))
            else Inr saveTo)"
  show ?thesis
  proof (cases ?X)
    case (Inl e)
    show ?thesis
      unfolding SaveArtifact_def SaveArtifact_paths_def Let_def Inl
      by simp
  next
    case (Inr adj0)
    obtain d f where w: "splitWildcards K adj0 = (d, f)"
      by (cases "splitWildcards K adj0") auto
    show ?thesis
      unfolding SaveArtifact_def SaveArtifact_paths_def Let_def Inr
      using w by simp
  qed
qed


lemma locals_apply_Build:
  "locals_of (snd (case Build K c n bas of
                     (Inl err, c') \<Rightarrow> (Some err, c')
                   | (Inr m, c') \<Rightarrow> (None, c'))) = locals_of c"
proof -
  obtain res c1 where b: "Build K c n bas = (res, c1)" by (cases "Build K c n bas") auto
  have "locals_of c1 = locals_of c" using locals_Build[of K c n bas] b by simp
  then show ?thesis using b by (simp split: sum.splits)
qed

lemma locals_apply_command:
  "WithDockerRun_keeps_locals K \<Longrightarrow> \<not> is_SaveArtifact cmd \<Longrightarrow>
   locals_of (snd (apply_command K cmd c)) = locals_of c"
proof -
  assume w: "WithDockerRun_keeps_locals K" and n: "\<not> is_SaveArtifact cmd"
  have wd: "locals_of (snd (WithDockerRun_Run K as opt c)) = locals_of c" for as opt
    using w unfolding WithDockerRun_keeps_locals_def by blast
  show ?thesis
  proof (cases cmd)
    case (C_SaveArtifact a b l)
    then show ?thesis using n by simp
  next
    case (C_WithDockerRun as opt)
    then show ?thesis by (simp add: WithDockerRun_def wd)
  next
    case (C_Build x y)
    then show ?thesis by (simp add: locals_apply_Build)
  qed (simp_all add: locals_From locals_FromDockerfile locals_CopyArtifact locals_simple
        locals_Run_call locals_SaveImage_cmd locals_DockerLoadOld
        locals_DockerPullOld locals_FinalizeStates)
qed

lemma SaveLocals_ok_locals:
  "locals_of c' = locals_of c \<Longrightarrow> SaveLocals_ok c' = SaveLocals_ok c"
  by (simp add: locals_of_def SaveLocals_ok_def)

lemma SaveLocals_ok_append:
  assumes "map Index sls = map int [0..<length seps]"
  shows "map Index (sls @ [\<lparr>DestPath = d, ArtifactPath = a, Index = int (length seps)\<rparr>]) =
         map int [0..<length (seps @ [x])]"
  using assms by simp

lemma SaveLocals_ok_SaveArtifact:
  assumes ok: "SaveLocals_ok c"
  shows "SaveLocals_ok (snd (SaveArtifact K c saveFrom saveTo saveAsLocalTo))"
proof -
  let ?c' = "snd (SaveArtifact K c saveFrom saveTo saveAsLocalTo)"
  note L = SaveArtifact_locals[of K c saveFrom saveTo saveAsLocalTo]
  show ?thesis
  proof (cases "SaveArtifact_paths K c saveFrom saveTo")
    case (Inl e)
    have "locals_of ?c' = locals_of c"
      by (simp only: L Inl sum.case)
    from SaveLocals_ok_locals[OF this] show ?thesis using ok by simp
  next
    case (Inr p)
    obtain adj ap where p: "p = (adj, ap)" by (cases p) auto
    show ?thesis
    proof (cases "saveAsLocalTo = []")
      case True
      have "locals_of ?c' = locals_of c"
        using Inr p True by (simp add: SaveArtifact_locals)
      from SaveLocals_ok_locals[OF this] show ?thesis using ok by simp
    next
      case False
      have l: "locals_of ?c' =
             (SeparateArtifactsState (FS c) @
                [CopyOp (SideEffectsState (FS c)) [saveFrom] (Platform llb_Scratch)
                   adj True False []
                   (vertexPrefix K c @ ''SAVE ARTIFACT '' @ saveFrom @ '' ''
                      @ Artifact_String K \<lparr>ArtifactTarget = Target (FS c), Artifact = ap\<rparr>
                      @ '' AS LOCAL '' @ saveAsLocalTo)],
              SaveLocals (FS c) @
                [\<lparr>DestPath = saveAsLocalTo, ArtifactPath = ap,
                  Index = int (length (SeparateArtifactsState (FS c)))\<rparr>])"
        by (simp only: L Inr p sum.case prod.case False if_True simp_thms)
      have sep: "SeparateArtifactsState (FS ?c') = SeparateArtifactsState (FS c) @
                [CopyOp (SideEffectsState (FS c)) [saveFrom] (Platform llb_Scratch)
                   adj True False []
                   (vertexPrefix K c @ ''SAVE ARTIFACT '' @ saveFrom @ '' ''
                      @ Artifact_String K \<lparr>ArtifactTarget = Target (FS c), Artifact = ap\<rparr>
                      @ '' AS LOCAL '' @ saveAsLocalTo)]"
        using l unfolding locals_of_def by (rule Pair_inject)
      have sl: "SaveLocals (FS ?c') = SaveLocals (FS c) @
                [\<lparr>DestPath = saveAsLocalTo, ArtifactPath = ap,
                  Index = int (length (SeparateArtifactsState (FS c)))\<rparr>]"
        using l unfolding locals_of_def by (rule Pair_inject)
      have ok0: "map Index (SaveLocals (FS c)) = map int [0..<length (SeparateArtifactsState (FS c))]"
        using ok unfolding SaveLocals_ok_def .
      show ?thesis
        unfolding SaveLocals_ok_def sep sl
        by (rule SaveLocals_ok_append[OF ok0])
    qed
  qed
qed

lemma SaveLocals_ok_apply_command:
  assumes "WithDockerRun_keeps_locals K" and "SaveLocals_ok c"
  shows "SaveLocals_ok (snd (apply_command K cmd c))"
proof (cases "is_SaveArtifact cmd")
  case True
  then obtain a b l where "cmd = C_SaveArtifact a b l" by (cases cmd) auto
  then show ?thesis using assms(2) by (simp add: SaveLocals_ok_SaveArtifact)
next
  case False
  then show ?thesis
    using SaveLocals_ok_locals[OF locals_apply_command[OF assms(1) False, of c]] assms(2)
    by simp
qed

lemma SaveLocals_ok_apply_commands:
  assumes "WithDockerRun_keeps_locals K"
  shows "SaveLocals_ok c \<Longrightarrow> SaveLocals_ok (apply_commands K cmds c)"
proof (induction cmds arbitrary: c)
  case Nil
  then show ?case by (simp add: apply_commands_def)
next
  case (Cons cmd cmds)
  have "SaveLocals_ok (snd (apply_command K cmd c))"
    using assms Cons.prems by (rule SaveLocals_ok_apply_command)
  then have "SaveLocals_ok (apply_commands K cmds (snd (apply_command K cmd c)))"
    by (rule Cons.IH)
  then show ?case by (simp add: apply_commands_def)
qed

lemma NewConverter_fold_locals:
  "SaveLocals (fold (\<lambda>key s. s\<lparr>TargetInput :=
                         WithBuildArgInput (TargetInput s)
                           (BuildArgInput_of (fst (Get vc key)) key [])\<rparr>) ks s0) = SaveLocals s0
   \<and> SeparateArtifactsState (fold (\<lambda>key s. s\<lparr>TargetInput :=
                         WithBuildArgInput (TargetInput s)
                           (BuildArgInput_of (fst (Get vc key)) key [])\<rparr>) ks s0)
       = SeparateArtifactsState s0"
  by (induction ks arbitrary: s0) simp_all

lemma SaveLocals_ok_NewConverter: "SaveLocals_ok (NewConverter K t bc opt salt)"
  by (simp add: NewConverter_def Let_def SaveLocals_ok_def NewConverter_fold_locals)

lemma SaveLocals_ok_bounds:
  assumes "SaveLocals_ok c" and "sl \<in> set (SaveLocals (FS c))"
  shows "0 \<le> Index sl \<and> Index sl < int (length (SeparateArtifactsState (FS c)))"
proof -
  have "set (map Index (SaveLocals (FS c))) =
        set (map int [0..<length (SeparateArtifactsState (FS c))])"
    using assms(1) unfolding SaveLocals_ok_def by simp
  moreover have "Index sl \<in> set (map Index (SaveLocals (FS c)))" using assms(2) by simp
  ultimately have "Index sl \<in> set (map int [0..<length (SeparateArtifactsState (FS c))])"
    by blast
  then show ?thesis by auto
qed

text \<open>
  C8. When \<open>withDockerRun.Run\<close> (whose code is not in converter.go) leaves the two vectors
  alone: after any sequence of commands on a new converter, every \<open>SaveLocal\<close> has
  \<open>0 \<le> Index < len(SeparateArtifactsState)\<close>, indeed the indices are \<open>0, 1, ...\<close> in order,
  one per separate state; this holds from any converter where it holds; every command but
  SAVE ARTIFACT leaves both vectors as they are, whether it fails or not; and SAVE ARTIFACT
  either fails on \<open>llbutil.Abs\<close> before any write, or leaves them as they are when
  \<open>saveAsLocalTo\<close> is empty, or appends one copy onto a scratch state to
  \<open>SeparateArtifactsState\<close> and one \<open>SaveLocal\<close> whose index is that state's position.
\<close>

theorem SaveLocals_index_in_range:
  assumes "WithDockerRun_keeps_locals K"
  shows "(\<forall>sl \<in> set (SaveLocals (FS (apply_commands K cmds (NewConverter K t bc opt salt)))).
            0 \<le> Index sl
            \<and> Index sl < int (length (SeparateArtifactsState
                  (FS (apply_commands K cmds (NewConverter K t bc opt salt))))))
    \<and> SaveLocals_ok (apply_commands K cmds (NewConverter K t bc opt salt))
    \<and> (SaveLocals_ok c \<longrightarrow> SaveLocals_ok (apply_commands K cmds c))
    \<and> (\<not> is_SaveArtifact cmd \<longrightarrow> locals_of (snd (apply_command K cmd c)) = locals_of c)
    \<and> fst (SaveArtifact K c saveFrom saveTo saveAsLocalTo) =
         (case SaveArtifact_paths K c saveFrom saveTo of Inl err \<Rightarrow> Some err | Inr p \<Rightarrow> None)
    \<and> locals_of (snd (SaveArtifact K c saveFrom saveTo saveAsLocalTo)) =
         (case SaveArtifact_paths K c saveFrom saveTo of
            Inl err \<Rightarrow> locals_of c
          | Inr (saveToAdjusted, artifactPath) \<Rightarrow>
              (if saveAsLocalTo \<noteq> [] then
                 (SeparateArtifactsState (FS c) @
                    [CopyOp (SideEffectsState (FS c)) [saveFrom] (Platform llb_Scratch)
                       saveToAdjusted True False []
                       (vertexPrefix K c @ ''SAVE ARTIFACT '' @ saveFrom @ '' ''
                          @ Artifact_String K
                              \<lparr>ArtifactTarget = Target (FS c), Artifact = artifactPath\<rparr>
                          @ '' AS LOCAL '' @ saveAsLocalTo)],
                  SaveLocals (FS c) @
                    [\<lparr>DestPath = saveAsLocalTo, ArtifactPath = artifactPath,
                      Index = int (length (SeparateArtifactsState (FS c)))\<rparr>])
               else locals_of c))"
proof (intro conjI impI ballI)
  let ?c = "apply_commands K cmds (NewConverter K t bc opt salt)"
  have ok: "SaveLocals_ok ?c"
    using assms SaveLocals_ok_NewConverter by (rule SaveLocals_ok_apply_commands)
  show "SaveLocals_ok ?c" by (rule ok)
  fix sl assume "sl \<in> set (SaveLocals (FS ?c))"
  with ok have b: "0 \<le> Index sl \<and> Index sl < int (length (SeparateArtifactsState (FS ?c)))"
    by (rule SaveLocals_ok_bounds)
  from b show "0 \<le> Index sl" by simp
  from b show "Index sl < int (length (SeparateArtifactsState (FS ?c)))" by simp
next
  assume "SaveLocals_ok c"
  with assms show "SaveLocals_ok (apply_commands K cmds c)"
    by (rule SaveLocals_ok_apply_commands)
next
  assume "\<not> is_SaveArtifact cmd"
  with assms show "locals_of (snd (apply_command K cmd c)) = locals_of c"
    by (rule locals_apply_command)
next
  show "fst (SaveArtifact K c saveFrom saveTo saveAsLocalTo) =
         (case SaveArtifact_paths K c saveFrom saveTo of Inl err \<Rightarrow> Some err | Inr p \<Rightarrow> None)"
    by (rule SaveArtifact_fst)
next
  show "locals_of (snd (SaveArtifact K c saveFrom saveTo saveAsLocalTo)) =
         (case SaveArtifact_paths K c saveFrom saveTo of
            Inl err \<Rightarrow> locals_of c
          | Inr (saveToAdjusted, artifactPath) \<Rightarrow>
              (if saveAsLocalTo \<noteq> [] then
                 (SeparateArtifactsState (FS c) @
                    [CopyOp (SideEffectsState (FS c)) [saveFrom] (Platform llb_Scratch)
                       saveToAdjusted True False []
                       (vertexPrefix K c @ ''SAVE ARTIFACT '' @ saveFrom @ '' ''
                          @ Artifact_String K
                              \<lparr>ArtifactTarget = Target (FS c), Artifact = artifactPath\<rparr>
                          @ '' AS LOCAL '' @ saveAsLocalTo)],
                  SaveLocals (FS c) @
                    [\<lparr>DestPath = saveAsLocalTo, ArtifactPath = artifactPath,
                      Index = int (length (SeparateArtifactsState (FS c)))\<rparr>])
               else locals_of c))"
    by (rule SaveArtifact_locals)
qed

lemma K0_keeps_locals: "WithDockerRun_keeps_locals K0"
  by (simp add: WithDockerRun_keeps_locals_def K0_def)

lemma ex_SaveArtifact_paths:
  "\<not> strings_HasSuffix saveTo ''/'' \<Longrightarrow> saveTo \<noteq> [] \<Longrightarrow> saveTo \<noteq> ''.'' \<Longrightarrow>
   SaveArtifact_paths K0 c saveFrom saveTo = Inr (saveTo, saveTo)"
  by (simp add: SaveArtifact_paths_def K0_def)

lemma locals_of_eq:
  "(locals_of c = (seps, sls)) = (SeparateArtifactsState (FS c) = seps \<and> SaveLocals (FS c) = sls)"
  by (simp add: locals_of_def)

lemma ex_cmds_locals:
  "map Index (snd (locals_of (apply_commands K0 ex_cmds c0))) = [0, 1]
   \<and> length (fst (locals_of (apply_commands K0 ex_cmds c0))) = 2"
proof -
  let ?c1 = "snd (From K0 c0 ''scratch'' [])"
  let ?c2 = "snd (Run_call K0 ?c1 (ex_run ''make'' False))"
  let ?c3 = "snd (SaveArtifact K0 ?c2 ''/out/x'' ''x'' ''./x'')"
  let ?c4 = "SaveImage_cmd ?c3 [''app:latest''] False"
  let ?c5 = "snd (SaveArtifact K0 ?c4 ''/out/y'' ''y'' ''./y'')"
  have p: "SaveArtifact_paths K0 c f ''x'' = Inr (''x'', ''x'')"
          "SaveArtifact_paths K0 c f ''y'' = Inr (''y'', ''y'')" for c f
    by (simp_all add: ex_SaveArtifact_paths strings_HasSuffix_def)
  have "locals_of ?c2 = locals_of c0"
    by (simp only: locals_Run_call locals_From)
  then have l2: "SeparateArtifactsState (FS ?c2) = [] \<and> SaveLocals (FS ?c2) = []"
    by (simp add: locals_of_def c0_FS)
  obtain x1 where l3: "locals_of ?c3 =
      ([x1], [\<lparr>DestPath = ''./x'', ArtifactPath = ''x'', Index = 0\<rparr>])"
    using SaveArtifact_locals[of K0 ?c2 "''/out/x''" "''x''" "''./x''"] l2
    by (simp add: p)
  have "locals_of ?c4 = locals_of ?c3" by (rule locals_SaveImage_cmd)
  then have l4: "SeparateArtifactsState (FS ?c4) = [x1]
      \<and> SaveLocals (FS ?c4) = [\<lparr>DestPath = ''./x'', ArtifactPath = ''x'', Index = 0\<rparr>]"
    using l3 by (simp only: locals_of_eq)
  obtain x2 where l5: "locals_of ?c5 =
      ([x1, x2], [\<lparr>DestPath = ''./x'', ArtifactPath = ''x'', Index = 0\<rparr>,
                  \<lparr>DestPath = ''./y'', ArtifactPath = ''y'', Index = 1\<rparr>])"
    using SaveArtifact_locals[of K0 ?c4 "''/out/y''" "''y''" "''./y''"] l4
    by (simp add: p)
  have "apply_commands K0 ex_cmds c0 = ?c5"
    by (simp add: apply_commands_def ex_cmds_def)
  then show ?thesis using l5 by simp
qed

theorem SaveLocals_index_in_range_witness:
  "WithDockerRun_keeps_locals K0
   \<and> map Index (SaveLocals (FS (apply_commands K0 ex_cmds (NewConverter K0 t0 bc0 opt0 ''salt'')))) = [0, 1]
   \<and> length (SeparateArtifactsState
        (FS (apply_commands K0 ex_cmds (NewConverter K0 t0 bc0 opt0 ''salt'')))) = 2
   \<and> SaveLocals_ok (apply_commands K0 ex_cmds (NewConverter K0 t0 bc0 opt0 ''salt''))"
  using SaveLocals_index_in_range [OF K0_keeps_locals, of ex_cmds t0 bc0 opt0 "''salt''"]
    ex_cmds_locals K0_keeps_locals
  by (simp add: locals_of_def c0_def)

end
